theory Spec2Isabelle
  imports Main "HOL-Library.AList"
begin

section \<open>Python values, exceptions and the process environment\<close>

text \<open>
  The three lambda functions of the repository are Python modules:
  \<^item> \<^verbatim>\<open>transform_lambda.py\<close>, the metric transform (names without a prefix here);
  \<^item> \<^verbatim>\<open>transform_cloudwatch_lambda.py\<close>, the log transform (names prefixed \<open>cw_\<close>);
  \<^item> \<^verbatim>\<open>add_cloudwatch_subscrition.py\<close>, the subscription provisioner (names
    prefixed \<open>sub_\<close>).
  A Python exception is a value of type \<open>exn\<close>; a call that can raise returns
  \<open>exn + 'a\<close> with \<open>Inl\<close> for the exception.
\<close>

datatype exn =
    KeyError string
  | IndexError
  | AttributeError
  | TypeError
  | ValueError string
  | RuntimeError string
  | JSONDecodeError
  | UnicodeDecodeError
  | BinasciiError
  | BadGzipFile
  | NoSuchTagSet
  | ResourceAlreadyExistsException
  | ClientError string

text \<open>
  What \<^verbatim>\<open>json.loads\<close> returns. Numbers are kept as integers: the code only copies
  them. \<open>JRef a\<close> is a Python reference to the tag mapping at address \<open>a\<close> of the
  store; \<^verbatim>\<open>json.loads\<close> never produces one, \<^verbatim>\<open>metric["Tags"] = tags\<close> does.
\<close>

datatype json =
    JNull
  | JBool bool
  | JNum int
  | JStr string
  | JArr "json list"
  | JObj "(string \<times> json) list"
  | JRef nat

text \<open>A Python \<^verbatim>\<open>dict\<close> with string keys, in insertion order.\<close>

type_synonym tags = "(string \<times> json) list"

text \<open>\<^verbatim>\<open>s.startswith(p)\<close> and \<^verbatim>\<open>sub in s\<close> on strings.\<close>

definition startswith :: "string \<Rightarrow> string \<Rightarrow> bool" where
  "startswith s p = (take (length p) s = p)"

fun contains :: "string \<Rightarrow> string \<Rightarrow> bool" where
  "contains [] sub = (sub = [])"
| "contains (c # cs) sub = (startswith (c # cs) sub \<or> contains cs sub)"

text \<open>
  \<^verbatim>\<open>d.get(key, default)\<close>: only a dict has the method; a list, a string, a number
  or \<^verbatim>\<open>None\<close> raises AttributeError.
\<close>

fun py_get :: "json \<Rightarrow> string \<Rightarrow> json \<Rightarrow> exn + json" where
  "py_get (JObj kvs) k d = Inr (case map_of kvs k of Some v \<Rightarrow> v | None \<Rightarrow> d)"
| "py_get _ k d = Inl AttributeError"

text \<open>
  \<^verbatim>\<open>d.pop(key, None)\<close>, returning the object after the call: a list's \<^verbatim>\<open>pop\<close> takes
  one argument at most (TypeError), the other values have no \<^verbatim>\<open>pop\<close>.
\<close>

fun py_pop :: "json \<Rightarrow> string \<Rightarrow> exn + json" where
  "py_pop (JObj kvs) k = Inr (JObj (AList.delete k kvs))"
| "py_pop (JArr xs) k = Inl TypeError"
| "py_pop _ k = Inl AttributeError"

text \<open>\<^verbatim>\<open>v[key]\<close> with a string key.\<close>

fun py_getitem :: "json \<Rightarrow> string \<Rightarrow> exn + json" where
  "py_getitem (JObj kvs) k = (case map_of kvs k of Some v \<Rightarrow> Inr v | None \<Rightarrow> Inl (KeyError k))"
| "py_getitem _ k = Inl TypeError"

text \<open>
  \<^verbatim>\<open>for x in v\<close>: a list gives its elements, a dict its keys, a string its
  characters; nothing else is iterable.
\<close>

fun py_iter :: "json \<Rightarrow> exn + json list" where
  "py_iter (JArr xs) = Inr xs"
| "py_iter (JObj kvs) = Inr (map (\<lambda>kv. JStr (fst kv)) kvs)"
| "py_iter (JStr s) = Inr (map (\<lambda>c. JStr [c]) s)"
| "py_iter _ = Inl TypeError"


text \<open>
  An environment variable or a session attribute is a \<open>string option\<close>
  (\<^verbatim>\<open>os.getenv\<close> gives \<^verbatim>\<open>None\<close> for an unset one). \<open>unset v\<close> is \<^verbatim>\<open>not v\<close>,
  \<open>py_or\<close> is \<^verbatim>\<open>a or b\<close>, \<open>fmt\<close> is the text an f-string puts for it.
\<close>

definition unset :: "string option \<Rightarrow> bool" where
  "unset v = (case v of None \<Rightarrow> True | Some s \<Rightarrow> s = [])"

definition py_or :: "string option \<Rightarrow> string option \<Rightarrow> string option" where
  "py_or a b = (if unset a then b else a)"

definition fmt :: "string option \<Rightarrow> string" where
  "fmt v = (case v of None \<Rightarrow> ''None'' | Some s \<Rightarrow> s)"

record environ =
  ENVIRONMENT :: "string option"
  AWS_REGION :: "string option"
  ACCOUNT_ID :: "string option"
  S3_BUCKET_NAME :: "string option"
  FIREHOSE_ARN :: "string option"
  ROLE_ARN :: "string option"
  session_region :: "string option"

section \<open>The prefix resolvers\<close>

text \<open>
  \<^verbatim>\<open>make_prefixes\<close> of \<^verbatim>\<open>transform_lambda.py\<close>. The statement under
  \<^verbatim>\<open>if not environment:\<close> builds a RuntimeError and drops it (there is no
  \<^verbatim>\<open>raise\<close>), so both branches of the test continue; the function has no failing
  path. The result is \<^verbatim>\<open>(rds_prefix, s3_prefix, domain_prefix)\<close>.
\<close>

definition make_prefixes :: "string option \<Rightarrow> exn + (string \<times> string \<times> string)" where
  "make_prefixes environment =
    (let s3_prefix =
           (if environment \<in> set [Some ''development'', Some ''staging'']
            then fmt environment @ ''-cg-'' else ''cg-'');
         domain_prefix = ''cg-broker-'';
         domain_prefix =
           (if environment = Some ''production'' then domain_prefix @ ''prd-'' else domain_prefix);
         domain_prefix =
           (if environment = Some ''staging'' then domain_prefix @ ''stg-'' else domain_prefix);
         domain_prefix =
           (if environment = Some ''development'' then domain_prefix @ ''dev-'' else domain_prefix);
         rds_prefix = ''cg-aws-broker-'';
         rds_prefix =
           (if environment = Some ''production'' then rds_prefix @ ''prod'' else rds_prefix);
         rds_prefix =
           (if environment = Some ''staging'' then rds_prefix @ ''stage'' else rds_prefix);
         rds_prefix =
           (if environment = Some ''development'' then rds_prefix @ ''dev'' else rds_prefix)
     in Inr (rds_prefix, s3_prefix, domain_prefix))"

text \<open>The suffix table of the other two modules.\<close>

definition environment_suffixes :: "(string \<times> string) list" where
  "environment_suffixes =
    [(''production'', ''prod''), (''staging'', ''stage''), (''development'', ''dev'')]"

text \<open>\<^verbatim>\<open>make_prefixes\<close> of \<^verbatim>\<open>transform_cloudwatch_lambda.py\<close>.\<close>

definition cw_make_prefixes :: "string option \<Rightarrow> exn + string" where
  "cw_make_prefixes environment =
    (if unset environment then Inl (RuntimeError ''ENVIRONMENT is required'')
     else (case map_of environment_suffixes (fmt environment) of
             None \<Rightarrow> Inl (RuntimeError (''Invalid ENVIRONMENT: '' @ fmt environment))
           | Some suffix \<Rightarrow> Inr (''cg-aws-broker-'' @ suffix)))"

text \<open>\<^verbatim>\<open>make_prefixes\<close> of \<^verbatim>\<open>add_cloudwatch_subscrition.py\<close>.\<close>

definition sub_make_prefixes :: "string option \<Rightarrow> exn + string" where
  "sub_make_prefixes environment =
    (if unset environment then Inl (RuntimeError ''environment is required'')
     else (case map_of environment_suffixes (fmt environment) of
             None \<Rightarrow> Inl (RuntimeError (''environment is invalid: '' @ fmt environment))
           | Some suffix \<Rightarrow> Inr (''cg-aws-broker-'' @ suffix)))"

section \<open>The cloud services and the process state\<close>

text \<open>
  A boto3 client is an object; \<^verbatim>\<open>lru_cache\<close> hashes it by identity, so a client is
  its identity here. What the services answer is a parameter \<open>w\<close> of every function
  that calls them: each operation takes the client and its argument and returns the
  response or the exception the call raises. A tag response holds the list under
  \<^verbatim>\<open>TagList\<close> (\<^verbatim>\<open>TagSet\<close> for a bucket), or \<open>None\<close> when the key is absent; a
  description holds the list under \<^verbatim>\<open>DBInstances\<close>, each instance with its
  \<^verbatim>\<open>AllocatedStorage\<close> if it has one.
\<close>

type_synonym client = nat

record tag =
  Key :: string
  Value :: string

type_synonym tag_response = "tag list option"

type_synonym describe_response = "int option list option"

record aws =
  list_tags :: "client \<Rightarrow> string \<Rightarrow> exn + tag_response"
  list_tags_for_resource :: "client \<Rightarrow> string \<Rightarrow> exn + tag_response"
  get_bucket_tagging :: "client \<Rightarrow> string \<Rightarrow> exn + tag_response"
  describe_db_instances :: "client \<Rightarrow> string \<Rightarrow> exn + describe_response"
  put_object :: "client \<Rightarrow> string \<Rightarrow> string \<Rightarrow> string \<Rightarrow> exn + unit"
  put_subscription_filter :: "string \<Rightarrow> string \<Rightarrow> string \<Rightarrow> string \<Rightarrow> string \<Rightarrow> exn + unit"

text \<open>The service calls a run has made, oldest first.\<close>

datatype call =
    ListTags client string
  | ListTagsForResource client string
  | GetBucketTagging client string
  | DescribeDBInstances client string
  | PutObject client string string string
  | PutSubscriptionFilter string string string string string

text \<open>
  \<^verbatim>\<open>{tag["Key"]: tag["Value"] for tag in response.get(key, [])}\<close>: a later tag with
  the same key replaces the value and keeps the key's place.
\<close>

definition tag_dict :: "tag_response \<Rightarrow> tags" where
  "tag_dict response =
    fold (\<lambda>t d. AList.update (Key t) (JStr (Value t)) d)
      (case response of None \<Rightarrow> [] | Some ts \<Rightarrow> ts) []"

text \<open>
  \<^verbatim>\<open>functools.lru_cache(maxsize=256)\<close>: the entries most recently used first, and
  the two counters that \<^verbatim>\<open>cache_info()\<close> reports. A hit moves its entry to the
  front and counts a hit. A miss counts a miss before the function runs; when the
  function returns, the new entry goes to the front and the entries beyond the first
  256 are dropped; when it raises, nothing is stored.
\<close>

record ('k, 'v) lru =
  entries :: "('k \<times> 'v) list"
  hits :: nat
  misses :: nat

definition maxsize :: nat where
  "maxsize = 256"

definition lru_hit :: "'k \<Rightarrow> 'v \<Rightarrow> ('k, 'v) lru \<Rightarrow> ('k, 'v) lru" where
  "lru_hit k v c = c\<lparr>entries := (k, v) # AList.delete k (entries c), hits := hits c + 1\<rparr>"

definition lru_raise :: "('k, 'v) lru \<Rightarrow> ('k, 'v) lru" where
  "lru_raise c = c\<lparr>misses := misses c + 1\<rparr>"

definition lru_miss :: "'k \<Rightarrow> 'v \<Rightarrow> ('k, 'v) lru \<Rightarrow> ('k, 'v) lru" where
  "lru_miss k v c =
    c\<lparr>entries := take maxsize ((k, v) # AList.delete k (entries c)), misses := misses c + 1\<rparr>"

text \<open>
  The state of the metric module's process. The tag mappings are Python objects: the
  store \<open>heap\<close> holds them, an address is an index into it, and the caches of
  \<^verbatim>\<open>get_tags_from_arn\<close> and \<^verbatim>\<open>get_tags_from_name\<close> hold addresses, as the
  Python caches hold references. \<^verbatim>\<open>get_rds_description\<close> caches a number or
  \<^verbatim>\<open>None\<close>.
\<close>

record proc =
  heap :: "tags list"
  arn_cache :: "(string \<times> client, nat) lru"
  name_cache :: "(string \<times> string \<times> client, nat) lru"
  rds_cache :: "(client \<times> string, json) lru"
  calls :: "call list"

text \<open>A new mapping in the store: its address and the store after.\<close>

definition alloc :: "tags \<Rightarrow> proc \<Rightarrow> nat \<times> proc" where
  "alloc d s = (length (heap s), s\<lparr>heap := heap s @ [d]\<rparr>)"

section \<open>The cached lookups of the metric module\<close>

text \<open>
  The body of \<^verbatim>\<open>get_tags_from_arn\<close> (\<^verbatim>\<open>transform_lambda.py\<close>), under the cache:
  the mapping it returns and the service calls it makes. Both \<^verbatim>\<open>if\<close>s are tried
  in turn; an exception of a call leaves \<^verbatim>\<open>tags\<close> as it was.
\<close>

definition get_tags_from_arn_body :: "aws \<Rightarrow> string \<Rightarrow> client \<Rightarrow> tags \<times> call list" where
  "get_tags_from_arn_body w arn client =
    (let (tags, cs) =
           (if contains arn '':domain/'' then
              (case list_tags w client arn of
                 Inr response \<Rightarrow> (tag_dict response, [ListTags client arn])
               | Inl e \<Rightarrow> ([], [ListTags client arn]))
            else ([], []))
     in if contains arn '':db:'' then
          (case list_tags_for_resource w client arn of
             Inr response \<Rightarrow>
               (let tags = tag_dict response
                in if map_of tags ''Organization GUID'' = None
                   then ([], cs @ [ListTagsForResource client arn])
                   else (tags, cs @ [ListTagsForResource client arn]))
           | Inl e \<Rightarrow> (tags, cs @ [ListTagsForResource client arn]))
        else (tags, cs))"

text \<open>\<^verbatim>\<open>get_tags_from_arn\<close> with its cache: the address of the mapping.\<close>

definition get_tags_from_arn :: "aws \<Rightarrow> string \<Rightarrow> client \<Rightarrow> proc \<Rightarrow> nat \<times> proc" where
  "get_tags_from_arn w arn client s =
    (case map_of (entries (arn_cache s)) (arn, client) of
       Some a \<Rightarrow> (a, s\<lparr>arn_cache := lru_hit (arn, client) a (arn_cache s)\<rparr>)
     | None \<Rightarrow>
         (let (tags, cs) = get_tags_from_arn_body w arn client;
              (a, s1) = alloc tags (s\<lparr>calls := calls s @ cs\<rparr>)
          in (a, s1\<lparr>arn_cache := lru_miss (arn, client) a (arn_cache s1)\<rparr>)))"

text \<open>
  \<^verbatim>\<open>get_tags_from_name\<close>: only \<^verbatim>\<open>NoSuchTagSet\<close> is caught; any other exception
  of the call leaves the function, and nothing is cached then.
\<close>

definition get_tags_from_name ::
  "aws \<Rightarrow> string \<Rightarrow> string \<Rightarrow> client \<Rightarrow> proc \<Rightarrow> (exn + nat) \<times> proc" where
  "get_tags_from_name w name type client s =
    (case map_of (entries (name_cache s)) (name, type, client) of
       Some a \<Rightarrow> (Inr a, s\<lparr>name_cache := lru_hit (name, type, client) a (name_cache s)\<rparr>)
     | None \<Rightarrow>
         (if type = ''S3'' then
            (let s0 = s\<lparr>calls := calls s @ [GetBucketTagging client name]\<rparr>
             in case get_bucket_tagging w client name of
                  Inr response \<Rightarrow>
                    (let (a, s1) = alloc (tag_dict response) s0
                     in (Inr a, s1\<lparr>name_cache := lru_miss (name, type, client) a (name_cache s1)\<rparr>))
                | Inl e \<Rightarrow>
                    (if e = NoSuchTagSet then
                       (let (a, s1) = alloc [] s0
                        in (Inr a,
                            s1\<lparr>name_cache := lru_miss (name, type, client) a (name_cache s1)\<rparr>))
                     else (Inl e, s0\<lparr>name_cache := lru_raise (name_cache s0)\<rparr>)))
          else
            (let (a, s1) = alloc [] s
             in (Inr a, s1\<lparr>name_cache := lru_miss (name, type, client) a (name_cache s1)\<rparr>))))"

text \<open>
  \<^verbatim>\<open>get_rds_description\<close>: \<^verbatim>\<open>size["DBInstances"][0]["AllocatedStorage"]\<close>, and
  \<^verbatim>\<open>None\<close> (the function falls off its end) when the call or one of the three
  subscripts raises. The \<^verbatim>\<open>None\<close> is cached like a number.
\<close>

definition get_rds_description_body :: "aws \<Rightarrow> client \<Rightarrow> string \<Rightarrow> json" where
  "get_rds_description_body w client db_name =
    (case describe_db_instances w client db_name of
       Inl e \<Rightarrow> JNull
     | Inr response \<Rightarrow>
         (case response of
            None \<Rightarrow> JNull
          | Some [] \<Rightarrow> JNull
          | Some (None # _) \<Rightarrow> JNull
          | Some (Some n # _) \<Rightarrow> JNum n))"

definition get_rds_description :: "aws \<Rightarrow> client \<Rightarrow> string \<Rightarrow> proc \<Rightarrow> json \<times> proc" where
  "get_rds_description w client db_name s =
    (case map_of (entries (rds_cache s)) (client, db_name) of
       Some v \<Rightarrow> (v, s\<lparr>rds_cache := lru_hit (client, db_name) v (rds_cache s)\<rparr>)
     | None \<Rightarrow>
         (let v = get_rds_description_body w client db_name
          in (v, s\<lparr>rds_cache := lru_miss (client, db_name) v (rds_cache s),
                   calls := calls s @ [DescribeDBInstances client db_name]\<rparr>)))"

section \<open>The enrichment of one metric\<close>

text \<open>
  What \<^verbatim>\<open>lambda_handler\<close> hands down to the functions below: the region, the
  account, the three clients and the three prefixes.
\<close>

record ctx =
  region :: "string option"
  account_id :: "string option"
  s3_client :: client
  es_client :: client
  rds_client :: client
  s3_prefix :: string
  domain_prefix :: string
  rds_prefix :: string

text \<open>
  \<^verbatim>\<open>get_resource_tags_from_metric\<close>. The mapping of \<^verbatim>\<open>tags = {}\<close> is what the
  function returns when no branch assigns \<^verbatim>\<open>tags\<close> or when the \<^verbatim>\<open>try\<close> catches
  an exception (the state changes made before the exception stay); it enters the store
  where it is returned. A value without \<^verbatim>\<open>startswith\<close> (anything but a string)
  raises AttributeError. In the RDS branch \<^verbatim>\<open>.copy()\<close> allocates a new mapping and
  \<^verbatim>\<open>tags.update\<close> writes to that one.
\<close>

definition get_resource_tags_from_metric :: "aws \<Rightarrow> json \<Rightarrow> ctx \<Rightarrow> proc \<Rightarrow> nat \<times> proc" where
  "get_resource_tags_from_metric w metric cx s =
    (case py_get metric ''namespace'' JNull of
       Inl e \<Rightarrow> alloc [] s
     | Inr namespace \<Rightarrow>
     (case py_get metric ''dimensions'' (JObj []) of
        Inl e \<Rightarrow> alloc [] s
      | Inr dimensions \<Rightarrow>
          if namespace = JStr ''AWS/S3'' then
            (case py_get dimensions ''BucketName'' JNull of
               Inr (JStr bucket_name) \<Rightarrow>
                 (if startswith bucket_name (s3_prefix cx) then
                    (case get_tags_from_name w bucket_name ''S3'' (s3_client cx) s of
                       (Inr a, s1) \<Rightarrow> (a, s1)
                     | (Inl e, s1) \<Rightarrow> alloc [] s1)
                  else alloc [] s)
             | _ \<Rightarrow> alloc [] s)
          else if namespace = JStr ''AWS/ES'' then
            (case py_get dimensions ''DomainName'' JNull of
               Inr (JStr domain_name) \<Rightarrow>
                 (if startswith domain_name (domain_prefix cx) then
                    (let arn = ''arn:aws-us-gov:es:'' @ fmt (region cx) @ '':''
                               @ fmt (account_id cx) @ '':domain/'' @ domain_name
                     in get_tags_from_arn w arn (es_client cx) s)
                  else alloc [] s)
             | _ \<Rightarrow> alloc [] s)
          else if namespace = JStr ''AWS/RDS'' then
            (case py_get dimensions ''DBInstanceIdentifier'' JNull of
               Inr (JStr db_name) \<Rightarrow>
                 (if startswith db_name (rds_prefix cx) then
                    (let arn = ''arn:aws-us-gov:rds:'' @ fmt (region cx) @ '':''
                               @ fmt (account_id cx) @ '':db:'' @ db_name;
                         (a, s1) = get_tags_from_arn w arn (rds_client cx) s;
                         (result_tags, s2) = alloc (heap s1 ! a) s1
                     in if heap s2 ! result_tags \<noteq> []
                           \<and> py_get metric ''metric_name'' JNull = Inr (JStr ''FreeStorageSpace'')
                        then
                          (let (sz, s3) = get_rds_description w (rds_client cx) db_name s2
                           in (result_tags,
                               s3\<lparr>heap := (heap s3)
                                  [result_tags := AList.update ''db_size'' sz (heap s3 ! result_tags)]\<rparr>))
                        else (result_tags, s2))
                  else alloc [] s)
             | _ \<Rightarrow> alloc [] s)
          else alloc [] s))"

text \<open>
  The library functions the handlers call are parameters: base64, gzip, JSON and
  \<^verbatim>\<open>bytes.strip().splitlines()\<close>. \<open>s3_key\<close> is the object key the log handler
  builds from the clock.
\<close>

record codec =
  b64decode :: "string \<Rightarrow> exn + string"
  b64encode :: "string \<Rightarrow> string"
  gzip_decompress :: "string \<Rightarrow> exn + string"
  gzip_compress :: "string \<Rightarrow> string"
  splitlines :: "string \<Rightarrow> string list"
  json_loads :: "string \<Rightarrow> exn + json"
  json_dumps :: "json \<Rightarrow> string"
  s3_key :: string

definition nl :: string where
  "nl = [CHR 0x0A]"

text \<open>\<^verbatim>\<open>sep.join(xs)\<close>.\<close>

fun join :: "string \<Rightarrow> string list \<Rightarrow> string" where
  "join sep [] = []"
| "join sep [x] = x"
| "join sep (x # y # ys) = x @ sep @ join sep (y # ys)"

text \<open>
  What \<^verbatim>\<open>json.dumps\<close> reads through the reference under a key of a metric: the
  mapping the store holds at that time.
\<close>

definition deref :: "tags list \<Rightarrow> json \<Rightarrow> json" where
  "deref h v = (case v of JRef a \<Rightarrow> JObj (h ! a) | _ \<Rightarrow> v)"

definition resolve :: "tags list \<Rightarrow> json \<Rightarrow> json" where
  "resolve h metric =
    (case metric of JObj kvs \<Rightarrow> JObj (map (\<lambda>kv. (fst kv, deref h (snd kv))) kvs) | _ \<Rightarrow> metric)"

definition EXPECTED_NAMESPACES :: "json list" where
  "EXPECTED_NAMESPACES = [JStr ''AWS/S3'', JStr ''AWS/ES'', JStr ''AWS/RDS'']"

definition default_keys_to_remove :: "string list" where
  "default_keys_to_remove = [''metric_stream_name'', ''account_id'', ''region'']"

text \<open>
  \<^verbatim>\<open>process_metric\<close>: the metric with its \<^verbatim>\<open>Tags\<close>, or \<^verbatim>\<open>None\<close>. Every
  exception is caught and gives \<^verbatim>\<open>None\<close>.
\<close>

definition process_metric :: "aws \<Rightarrow> json \<Rightarrow> ctx \<Rightarrow> proc \<Rightarrow> json option \<times> proc" where
  "process_metric w metric cx s =
    (case py_get metric ''namespace'' JNull of
       Inl e \<Rightarrow> (None, s)
     | Inr namespace \<Rightarrow>
         if namespace \<notin> set EXPECTED_NAMESPACES then (None, s)
         else
           (let (tags, s1) = get_resource_tags_from_metric w metric cx s
            in if length (heap s1 ! tags) > 0 then
                 (case metric of
                    JObj kvs \<Rightarrow> (Some (JObj (AList.update ''Tags'' (JRef tags) kvs)), s1)
                  | _ \<Rightarrow> (None, s1))
               else (None, s1)))"

section \<open>The metric transform driver\<close>

datatype disposition = Ok | Dropped | ProcessingFailed

record in_record =
  recordId :: string
  data :: string

record out_record = in_record +
  result :: disposition

text \<open>\<^verbatim>\<open>for key in default_keys_to_remove: metric.pop(key, None)\<close>.\<close>

fun pop_keys :: "json \<Rightarrow> string list \<Rightarrow> exn + json" where
  "pop_keys metric [] = Inr metric"
| "pop_keys metric (key # keys) =
    (case py_pop metric key of Inl e \<Rightarrow> Inl e | Inr m \<Rightarrow> pop_keys m keys)"

text \<open>\<^verbatim>\<open>metric_results["dimensions"].pop("ClientId", None)\<close>.\<close>

definition pop_client_id :: "json \<Rightarrow> exn + json" where
  "pop_client_id metric_results =
    (case py_getitem metric_results ''dimensions'' of
       Inl e \<Rightarrow> Inl e
     | Inr dimensions \<Rightarrow>
         (case py_pop dimensions ''ClientId'' of
            Inl e \<Rightarrow> Inl e
          | Inr d \<Rightarrow>
              (case metric_results of
                 JObj kvs \<Rightarrow> Inr (JObj (AList.update ''dimensions'' d kvs))
               | _ \<Rightarrow> Inl TypeError)))"

text \<open>
  The loop over the lines of one record, \<open>processed_metrics\<close> being the list so far.
  Nothing here catches: an exception of \<^verbatim>\<open>json.loads\<close> or of a \<^verbatim>\<open>pop\<close> leaves the
  loop.
\<close>

fun metric_lines ::
  "aws \<Rightarrow> codec \<Rightarrow> ctx \<Rightarrow> string list \<Rightarrow> json list \<Rightarrow> proc \<Rightarrow> (exn + json list) \<times> proc" where
  "metric_lines w lib cx [] processed_metrics s = (Inr processed_metrics, s)"
| "metric_lines w lib cx (line # lines) processed_metrics s =
    (case json_loads lib line of
       Inl e \<Rightarrow> (Inl e, s)
     | Inr metric0 \<Rightarrow>
         (case pop_keys metric0 default_keys_to_remove of
            Inl e \<Rightarrow> (Inl e, s)
          | Inr metric \<Rightarrow>
              (case process_metric w metric cx s of
                 (None, s1) \<Rightarrow> metric_lines w lib cx lines processed_metrics s1
               | (Some metric_results, s1) \<Rightarrow>
                   (case pop_client_id metric_results of
                      Inl e \<Rightarrow> (Inl e, s1)
                    | Inr m \<Rightarrow> metric_lines w lib cx lines (processed_metrics @ [m]) s1))))"

text \<open>The loop over the records, \<open>output_records\<close> being the list so far.\<close>

fun metric_records ::
  "aws \<Rightarrow> codec \<Rightarrow> ctx \<Rightarrow> in_record list \<Rightarrow> out_record list \<Rightarrow> proc
    \<Rightarrow> (exn + out_record list) \<times> proc" where
  "metric_records w lib cx [] output_records s = (Inr output_records, s)"
| "metric_records w lib cx (record # records) output_records s =
    (case b64decode lib (data record) of
       Inl e \<Rightarrow> (Inl e, s)
     | Inr pre_json_value \<Rightarrow>
         (case metric_lines w lib cx (splitlines lib pre_json_value) [] s of
            (Inl e, s1) \<Rightarrow> (Inl e, s1)
          | (Inr processed_metrics, s1) \<Rightarrow>
              if processed_metrics \<noteq> [] then
                (let output_data =
                       join nl (map (\<lambda>metric. json_dumps lib (resolve (heap s1) metric))
                                  processed_metrics) @ nl;
                     encoded_output = b64encode lib output_data;
                     output_record =
                       \<lparr>recordId = recordId record, data = encoded_output, result = Ok\<rparr>
                 in metric_records w lib cx records (output_records @ [output_record]) s1)
              else
                (let output_record =
                       \<lparr>recordId = recordId record, data = data record, result = Dropped\<rparr>
                 in metric_records w lib cx records (output_records @ [output_record]) s1)))"

text \<open>
  \<^verbatim>\<open>lambda_handler\<close> of \<^verbatim>\<open>transform_lambda.py\<close>. The three clients it creates are
  parameters. The \<^verbatim>\<open>except\<close> around the loop logs and raises the exception again,
  so the exception is the result. \<open>records\<close> is \<^verbatim>\<open>event["records"]\<close>.
\<close>

definition lambda_handler ::
  "aws \<Rightarrow> codec \<Rightarrow> environ \<Rightarrow> client \<Rightarrow> client \<Rightarrow> client \<Rightarrow> in_record list \<Rightarrow> proc
    \<Rightarrow> (exn + out_record list) \<times> proc" where
  "lambda_handler w lib env s3 es rds records s =
    (let reg = py_or (session_region env) (AWS_REGION env)
     in case make_prefixes (ENVIRONMENT env) of
          Inl e \<Rightarrow> (Inl e, s)
        | Inr (rds_pre, s3_pre, domain_pre) \<Rightarrow>
            metric_records w lib
              \<lparr>region = reg, account_id = ACCOUNT_ID env,
               s3_client = s3, es_client = es, rds_client = rds,
               s3_prefix = s3_pre, domain_prefix = domain_pre, rds_prefix = rds_pre\<rparr>
              records [] s)"

section \<open>The log transform\<close>

text \<open>
  The state of the log module's process: the cache of its own
  \<^verbatim>\<open>get_tags_from_arn\<close> and the service calls made. No function of this module
  writes to a mapping after building it, so the cache holds the mappings themselves.
\<close>

record cw_proc =
  cw_arn_cache :: "(string \<times> client, tags) lru"
  cw_calls :: "call list"

text \<open>
  The body of \<^verbatim>\<open>get_tags_from_arn\<close> (\<^verbatim>\<open>transform_cloudwatch_lambda.py\<close>): the
  mapping and the service calls made.
\<close>

definition cw_get_tags_from_arn_body :: "aws \<Rightarrow> string \<Rightarrow> client \<Rightarrow> tags \<times> call list" where
  "cw_get_tags_from_arn_body w arn client =
    (if contains arn '':db:'' then
       (case list_tags_for_resource w client arn of
          Inr response \<Rightarrow>
            (let tags = tag_dict response
             in if map_of tags ''Organization GUID'' = None
                then ([], [ListTagsForResource client arn])
                else (tags, [ListTagsForResource client arn]))
        | Inl e \<Rightarrow> ([], [ListTagsForResource client arn]))
     else ([], []))"

definition cw_get_tags_from_arn :: "aws \<Rightarrow> string \<Rightarrow> client \<Rightarrow> cw_proc \<Rightarrow> tags \<times> cw_proc" where
  "cw_get_tags_from_arn w arn client s =
    (case map_of (entries (cw_arn_cache s)) (arn, client) of
       Some tags \<Rightarrow> (tags, s\<lparr>cw_arn_cache := lru_hit (arn, client) tags (cw_arn_cache s)\<rparr>)
     | None \<Rightarrow>
         (let (tags, cs) = cw_get_tags_from_arn_body w arn client
          in (tags, s\<lparr>cw_arn_cache := lru_miss (arn, client) tags (cw_arn_cache s),
                      cw_calls := cw_calls s @ cs\<rparr>)))"

text \<open>
  What the log handler hands down to the functions below: the RDS client, the region,
  the account and the prefix.
\<close>

record cw_ctx =
  cw_client :: client
  cw_region :: "string option"
  cw_account_id :: "string option"
  cw_rds_prefix :: string

text \<open>\<^verbatim>\<open>get_resource_tags_from_log\<close>; \<open>None\<close> is a \<^verbatim>\<open>resource_name\<close> of \<^verbatim>\<open>None\<close>.\<close>

definition get_resource_tags_from_log ::
  "aws \<Rightarrow> string option \<Rightarrow> cw_ctx \<Rightarrow> cw_proc \<Rightarrow> tags \<times> cw_proc" where
  "get_resource_tags_from_log w resource_name cx s =
    (case resource_name of
       None \<Rightarrow> ([], s)
     | Some name \<Rightarrow>
         if startswith name (cw_rds_prefix cx) then
           (let arn = ''arn:aws-us-gov:rds:'' @ fmt (cw_region cx) @ '':''
                      @ fmt (cw_account_id cx) @ '':db:'' @ name
            in cw_get_tags_from_arn w arn (cw_client cx) s)
         else ([], s))"

text \<open>\<^verbatim>\<open>s.split(sep)\<close> with a one-character separator, and \<^verbatim>\<open>xs[i]\<close>.\<close>

fun split_on :: "char \<Rightarrow> string \<Rightarrow> string list" where
  "split_on sep [] = [[]]"
| "split_on sep (c # cs) =
    (if c = sep then [] # split_on sep cs
     else (case split_on sep cs of [] \<Rightarrow> [[c]] | x # xs \<Rightarrow> (c # x) # xs))"

definition py_index :: "'a list \<Rightarrow> nat \<Rightarrow> exn + 'a" where
  "py_index xs i = (if i < length xs then Inr (xs ! i) else Inl IndexError)"

text \<open>
  \<^verbatim>\<open>logs["logGroup"].split("/")[4]\<close>: the value under the key has to be a string to
  have \<^verbatim>\<open>split\<close>.
\<close>

definition resource_name_of :: "json \<Rightarrow> exn + string" where
  "resource_name_of logs =
    (case py_getitem logs ''logGroup'' of
       Inl e \<Rightarrow> Inl e
     | Inr (JStr g) \<Rightarrow> py_index (split_on (CHR ''/'') g) 4
     | Inr _ \<Rightarrow> Inl AttributeError)"

text \<open>The entries of the loop over \<^verbatim>\<open>logs["logEvents"]\<close>, in order.\<close>

fun log_entries :: "json \<Rightarrow> tags \<Rightarrow> json list \<Rightarrow> exn + json list" where
  "log_entries logs tags [] = Inr []"
| "log_entries logs tags (event # events) =
    (case py_getitem logs ''logGroup'' of Inl e \<Rightarrow> Inl e | Inr g \<Rightarrow>
     (case py_getitem logs ''logStream'' of Inl e \<Rightarrow> Inl e | Inr st \<Rightarrow>
     (case py_getitem event ''message'' of Inl e \<Rightarrow> Inl e | Inr m \<Rightarrow>
     (case py_getitem event ''timestamp'' of Inl e \<Rightarrow> Inl e | Inr t \<Rightarrow>
     (case log_entries logs tags events of
        Inl e \<Rightarrow> Inl e
      | Inr rest \<Rightarrow>
          Inr (JObj [(''logGroup'', g), (''logStream'', st), (''message'', m),
                     (''timestamp'', t), (''Tags'', JObj tags)] # rest))))))"

text \<open>
  \<^verbatim>\<open>process_logs\<close>: the entries, or \<^verbatim>\<open>None\<close> when the tags are empty or an
  exception was caught.
\<close>

definition process_logs ::
  "aws \<Rightarrow> json \<Rightarrow> cw_ctx \<Rightarrow> cw_proc \<Rightarrow> json list option \<times> cw_proc" where
  "process_logs w logs cx s =
    (case resource_name_of logs of
       Inl e \<Rightarrow> (None, s)
     | Inr resource_name \<Rightarrow>
         (let (tags, s1) =
                get_resource_tags_from_log w (Some resource_name) cx s
          in if length tags > 0 then
               (case py_getitem logs ''logEvents'' of
                  Inl e \<Rightarrow> (None, s1)
                | Inr evs \<Rightarrow>
                    (case py_iter evs of
                       Inl e \<Rightarrow> (None, s1)
                     | Inr events \<Rightarrow>
                         (case log_entries logs tags events of
                            Inl e \<Rightarrow> (None, s1)
                          | Inr return_logs \<Rightarrow> (Some return_logs, s1))))
             else (None, s1)))"

text \<open>
  The loop over the lines of one record, \<open>processed_logs\<close> being the list so far. A
  \<^verbatim>\<open>JSONDecodeError\<close> is caught and the loop goes on; any other exception of
  \<^verbatim>\<open>json.loads\<close> leaves the loop.
\<close>

fun cw_lines ::
  "aws \<Rightarrow> codec \<Rightarrow> cw_ctx \<Rightarrow> string list \<Rightarrow> json list \<Rightarrow> cw_proc
    \<Rightarrow> (exn + json list) \<times> cw_proc" where
  "cw_lines w lib cx [] processed_logs s =
    (Inr processed_logs, s)"
| "cw_lines w lib cx (line # lines) processed_logs s =
    (case json_loads lib line of
       Inl e \<Rightarrow>
         (if e = JSONDecodeError
          then cw_lines w lib cx lines processed_logs s
          else (Inl e, s))
     | Inr logs \<Rightarrow>
         (case process_logs w logs cx s of
            (Some log_results, s1) \<Rightarrow>
              cw_lines w lib cx lines
                (if log_results \<noteq> [] then processed_logs @ log_results else processed_logs) s1
          | (None, s1) \<Rightarrow>
              cw_lines w lib cx lines processed_logs s1))"

text \<open>
  One pass of the loop over the records: the \<^verbatim>\<open>try\<close> around the record's
  processing, giving the lines' entries or the exception that the
  \<^verbatim>\<open>except Exception\<close> of the record catches.
\<close>

definition cw_record_logs ::
  "aws \<Rightarrow> codec \<Rightarrow> cw_ctx \<Rightarrow> in_record \<Rightarrow> cw_proc \<Rightarrow> (exn + json list) \<times> cw_proc" where
  "cw_record_logs w lib cx record s =
    (case b64decode lib (data record) of
       Inl e \<Rightarrow> (Inl e, s)
     | Inr compressed_data \<Rightarrow>
         (case gzip_decompress lib compressed_data of
            Inl e \<Rightarrow> (Inl e, s)
          | Inr pre_json_value \<Rightarrow>
              cw_lines w lib cx
                (splitlines lib pre_json_value) [] s))"

text \<open>
  The loop over the records, with \<open>output_records\<close> and \<open>s3_output\<close> so far.
\<close>

fun cw_records ::
  "aws \<Rightarrow> codec \<Rightarrow> cw_ctx \<Rightarrow> in_record list \<Rightarrow> out_record list \<Rightarrow> json list \<Rightarrow> cw_proc
    \<Rightarrow> (out_record list \<times> json list) \<times> cw_proc" where
  "cw_records w lib cx [] output_records s3_output s =
    ((output_records, s3_output), s)"
| "cw_records w lib cx (record # records) output_records
      s3_output s =
    (case cw_record_logs w lib cx record s of
       (Inr processed_logs, s1) \<Rightarrow>
         if processed_logs \<noteq> [] then
           cw_records w lib cx records
             (output_records
              @ [\<lparr>recordId = recordId record, data = b64encode lib [], result = Ok\<rparr>])
             (s3_output @ processed_logs) s1
         else
           cw_records w lib cx records
             (output_records
              @ [\<lparr>recordId = recordId record, data = data record, result = Dropped\<rparr>])
             s3_output s1
     | (Inl e, s1) \<Rightarrow>
         cw_records w lib cx records
           (output_records
            @ [\<lparr>recordId = recordId record, data = data record, result = ProcessingFailed\<rparr>])
           s3_output s1)"

text \<open>
  The configuration block of \<^verbatim>\<open>lambda_handler\<close>: region, bucket, account and
  prefix, or the exception raised. The two clients the block creates are parameters of
  the handler.
\<close>

definition cw_config :: "environ \<Rightarrow> exn + (string option \<times> string \<times> string option \<times> string)" where
  "cw_config env =
    (let reg = py_or (session_region env) (AWS_REGION env)
     in if unset reg then
          Inl (ValueError ''AWS_REGION environment variable or session region is required'')
        else if unset (S3_BUCKET_NAME env) then
          Inl (ValueError ''S3_BUCKET_NAME environment variable must be set.'')
        else if unset (ACCOUNT_ID env) then
          Inl (ValueError ''ACCOUNT_ID environment variable is required'')
        else
          (case cw_make_prefixes (ENVIRONMENT env) of
             Inl e \<Rightarrow> Inl e
           | Inr prefix \<Rightarrow>
               Inr (reg, fmt (S3_BUCKET_NAME env), ACCOUNT_ID env, prefix)))"

text \<open>
  \<^verbatim>\<open>lambda_handler\<close> of \<^verbatim>\<open>transform_cloudwatch_lambda.py\<close>. Both \<^verbatim>\<open>except\<close>
  clauses of the configuration block return \<^verbatim>\<open>{"records": []}\<close>. After the loop
  the entries go to the bucket in one object; an exception of that call is raised
  again.
\<close>

definition cw_lambda_handler ::
  "aws \<Rightarrow> codec \<Rightarrow> environ \<Rightarrow> client \<Rightarrow> client \<Rightarrow> in_record list \<Rightarrow> cw_proc
    \<Rightarrow> (exn + out_record list) \<times> cw_proc" where
  "cw_lambda_handler w lib env s3 rds records s =
    (case cw_config env of
       Inl e \<Rightarrow> (Inr [], s)
     | Inr (reg, bucket, account, prefix) \<Rightarrow>
         (let cx = \<lparr>cw_client = rds, cw_region = reg, cw_account_id = account,
                      cw_rds_prefix = prefix\<rparr>;
              ((output_records, s3_output), s1) = cw_records w lib cx records [] [] s
          in if s3_output \<noteq> [] then
               (let compressed_data =
                      gzip_compress lib (concat (map (\<lambda>log. json_dumps lib log @ nl) s3_output));
                    s2 = s1\<lparr>cw_calls := cw_calls s1
                                @ [PutObject s3 bucket (s3_key lib) compressed_data]\<rparr>
                in case put_object w s3 bucket (s3_key lib) compressed_data of
                     Inl e \<Rightarrow> (Inl e, s2)
                   | Inr u \<Rightarrow> (Inr output_records, s2))
             else (Inr output_records, s1)))"

section \<open>The subscription provisioner\<close>



section \<open>An invariant of the store\<close>

text \<open>
  Every address that a cache of tag mappings holds is an address of the store: the
  caches refer to mappings that exist.
\<close>

definition cached_in_store :: "proc \<Rightarrow> bool" where
  "cached_in_store s =
    (list_all (\<lambda>kv. snd kv < length (heap s)) (entries (arn_cache s))
     \<and> list_all (\<lambda>kv. snd kv < length (heap s)) (entries (name_cache s)))"

section \<open>Sample inputs\<close>

text \<open>
  Concrete states, services, library functions and events, for evaluating the
  definitions above. \<open>sample_aws response\<close> answers every tag request with
  \<open>response\<close>, fails every description and reports the subscription filter as
  existing; \<open>failing_aws\<close> fails every call; \<open>no_rds_tags_aws\<close>, \<open>no_es_tags_aws\<close>
  and \<open>no_bucket_tags_aws\<close> are \<open>sample_aws org_tags\<close> with one tag operation failing. \<open>sample_codec\<close> has the identity for
  base64 and gzip, lines separated by \<open>;\<close> (no line in the empty text), and a \<^verbatim>\<open>json.loads\<close> that knows the
  two lines \<open>metric\<close> and \<open>log\<close>.
\<close>

definition empty_lru :: "('k, 'v) lru" where
  "empty_lru = \<lparr>entries = [], hits = 0, misses = 0\<rparr>"

definition init_proc :: proc where
  "init_proc =
    \<lparr>heap = [], arn_cache = empty_lru, name_cache = empty_lru, rds_cache = empty_lru,
     calls = []\<rparr>"

definition init_cw_proc :: cw_proc where
  "init_cw_proc = \<lparr>cw_arn_cache = empty_lru, cw_calls = []\<rparr>"

definition owner_tags :: tag_response where
  "owner_tags = Some [\<lparr>Key = ''Owner'', Value = ''team''\<rparr>]"

definition org_tags :: tag_response where
  "org_tags =
    Some [\<lparr>Key = ''Organization GUID'', Value = ''x''\<rparr>, \<lparr>Key = ''Owner'', Value = ''team''\<rparr>]"

definition sample_aws :: "tag_response \<Rightarrow> aws" where
  "sample_aws response =
    \<lparr>list_tags = (\<lambda>c arn. Inr response),
     list_tags_for_resource = (\<lambda>c arn. Inr response),
     get_bucket_tagging = (\<lambda>c name. Inr response),
     describe_db_instances = (\<lambda>c name. Inl (ClientError ''DBInstanceNotFound'')),
     put_object = (\<lambda>c bucket key body. Inr ()),
     put_subscription_filter = (\<lambda>g n p d r. Inl ResourceAlreadyExistsException)\<rparr>"

definition failing_aws :: aws where
  "failing_aws =
    \<lparr>list_tags = (\<lambda>c arn. Inl (ClientError ''AccessDenied'')),
     list_tags_for_resource = (\<lambda>c arn. Inl (ClientError ''AccessDenied'')),
     get_bucket_tagging = (\<lambda>c name. Inl (ClientError ''AccessDenied'')),
     describe_db_instances = (\<lambda>c name. Inl (ClientError ''AccessDenied'')),
     put_object = (\<lambda>c bucket key body. Inl (ClientError ''AccessDenied'')),
     put_subscription_filter = (\<lambda>g n p d r. Inl (ClientError ''AccessDenied''))\<rparr>"

definition sample_arn :: string where
  "sample_arn = ''arn:aws-us-gov:rds:us-gov-west-1:123456:db:cg-aws-broker-dev-db1''"

definition rds_metric :: json where
  "rds_metric =
    JObj [(''metric_stream_name'', JStr ''stream''),
          (''namespace'', JStr ''AWS/RDS''),
          (''metric_name'', JStr ''FreeStorageSpace''),
          (''dimensions'', JObj [(''DBInstanceIdentifier'', JStr ''cg-aws-broker-dev-db1'')])]"

definition s3_metric :: json where
  "s3_metric =
    JObj [(''namespace'', JStr ''AWS/S3''),
          (''metric_name'', JStr ''BucketSizeBytes''),
          (''dimensions'', JObj [(''BucketName'', JStr ''development-cg-bucket1'')])]"

definition log_line :: json where
  "log_line =
    JObj [(''logGroup'', JStr ''/aws/rds/instance/cg-aws-broker-dev-db1/postgresql''),
          (''logStream'', JStr ''db1.0''),
          (''logEvents'', JArr [JObj [(''timestamp'', JNum 1), (''message'', JStr ''hello'')]])]"

definition sample_codec :: codec where
  "sample_codec =
    \<lparr>b64decode = Inr, b64encode = (\<lambda>x. x), gzip_decompress = Inr, gzip_compress = (\<lambda>x. x),
     splitlines = (\<lambda>x. if x = [] then [] else split_on (CHR '';'') x),
     json_loads = (\<lambda>l. if l = ''metric'' then Inr rds_metric
                         else if l = ''log'' then Inr log_line else Inl JSONDecodeError),
     json_dumps = (\<lambda>j. ''{}''),
     s3_key = ''key''\<rparr>"

definition dev_env :: environ where
  "dev_env =
    \<lparr>ENVIRONMENT = Some ''development'', AWS_REGION = Some ''us-gov-west-1'',
     ACCOUNT_ID = Some ''123456'', S3_BUCKET_NAME = Some ''bucket'',
     FIREHOSE_ARN = Some ''firehose'', ROLE_ARN = Some ''role'', session_region = None\<rparr>"

definition dev_ctx :: ctx where
  "dev_ctx =
    \<lparr>region = Some ''us-gov-west-1'', account_id = Some ''123456'',
     s3_client = 0, es_client = 1, rds_client = 2,
     s3_prefix = ''development-cg-'', domain_prefix = ''cg-broker-dev-'',
     rds_prefix = ''cg-aws-broker-dev''\<rparr>"

definition es_metric :: "string \<Rightarrow> json" where
  "es_metric domain_name =
    JObj [(''namespace'', JStr ''AWS/ES''),
          (''metric_name'', JStr ''FreeStorageSpace''),
          (''dimensions'', JObj [(''DomainName'', JStr domain_name)])]"

definition no_rds_tags_aws :: aws where
  "no_rds_tags_aws =
    (sample_aws org_tags)
      \<lparr>list_tags_for_resource := (\<lambda>c arn. Inl (ClientError ''AccessDenied''))\<rparr>"

definition no_es_tags_aws :: aws where
  "no_es_tags_aws =
    (sample_aws org_tags)\<lparr>list_tags := (\<lambda>c arn. Inl (ClientError ''AccessDenied''))\<rparr>"

definition no_bucket_tags_aws :: aws where
  "no_bucket_tags_aws =
    (sample_aws org_tags)
      \<lparr>get_bucket_tagging := (\<lambda>c name. Inl (ClientError ''AccessDenied''))\<rparr>"


section \<open>Facts about the caches\<close>

lemma init_proc_simps:
  "heap init_proc = []"
  "calls init_proc = []"
  "entries (arn_cache init_proc) = []"
  "entries (name_cache init_proc) = []"
  "entries (rds_cache init_proc) = []"
  "hits (arn_cache init_proc) = 0"
  "misses (arn_cache init_proc) = 0"
  "hits (rds_cache init_proc) = 0"
  "misses (rds_cache init_proc) = 0"
  "hits (name_cache init_proc) = 0"
  "misses (name_cache init_proc) = 0"
  by (simp_all add: init_proc_def empty_lru_def)

lemma init_cw_proc_simps:
  "cw_calls init_cw_proc = []"
  "entries (cw_arn_cache init_cw_proc) = []"
  "hits (cw_arn_cache init_cw_proc) = 0"
  "misses (cw_arn_cache init_cw_proc) = 0"
  by (simp_all add: init_cw_proc_def empty_lru_def)

lemma map_of_lru_miss [simp]: "map_of (entries (lru_miss k v c)) k = Some v"
  by (simp add: lru_miss_def maxsize_def)

lemma map_of_lru_hit [simp]: "map_of (entries (lru_hit k v c)) k = Some v"
  by (simp add: lru_hit_def)

lemma lru_counters [simp]:
  "hits (lru_hit k v c) = hits c + 1"
  "hits (lru_miss k v c) = hits c"
  "hits (lru_raise c) = hits c"
  "misses (lru_hit k v c) = misses c"
  "misses (lru_miss k v c) = misses c + 1"
  "misses (lru_raise c) = misses c + 1"
  by (simp_all add: lru_hit_def lru_miss_def lru_raise_def)

lemma get_tags_from_arn_hit:
  "map_of (entries (arn_cache s)) (arn, client) = Some a \<Longrightarrow>
   get_tags_from_arn w arn client s = (a, s\<lparr>arn_cache := lru_hit (arn, client) a (arn_cache s)\<rparr>)"
  by (simp add: get_tags_from_arn_def)

lemma get_tags_from_arn_miss:
  "map_of (entries (arn_cache s)) (arn, client) = None \<Longrightarrow>
   get_tags_from_arn w arn client s =
     (length (heap s),
      s\<lparr>heap := heap s @ [fst (get_tags_from_arn_body w arn client)],
        calls := calls s @ snd (get_tags_from_arn_body w arn client),
        arn_cache := lru_miss (arn, client) (length (heap s)) (arn_cache s)\<rparr>)"
  by (simp add: get_tags_from_arn_def alloc_def split: prod.splits)

lemma get_tags_from_arn_body_calls:
  "distinct (snd (get_tags_from_arn_body w arn client))
   \<and> set (snd (get_tags_from_arn_body w arn client))
      \<subseteq> {ListTags client arn, ListTagsForResource client arn}
   \<and> (\<not> (contains arn '':domain/'' \<and> contains arn '':db:'')
      \<longrightarrow> length (snd (get_tags_from_arn_body w arn client)) \<le> 1)"
  by (simp add: get_tags_from_arn_body_def Let_def split: sum.splits)

lemma cw_get_tags_from_arn_hit:
  "map_of (entries (cw_arn_cache t)) (arn, client) = Some tags \<Longrightarrow>
   cw_get_tags_from_arn w arn client t =
     (tags, t\<lparr>cw_arn_cache := lru_hit (arn, client) tags (cw_arn_cache t)\<rparr>)"
  by (simp add: cw_get_tags_from_arn_def)

lemma cw_get_tags_from_arn_miss:
  "map_of (entries (cw_arn_cache t)) (arn, client) = None \<Longrightarrow>
   cw_get_tags_from_arn w arn client t =
     (fst (cw_get_tags_from_arn_body w arn client),
      t\<lparr>cw_arn_cache := lru_miss (arn, client) (fst (cw_get_tags_from_arn_body w arn client))
                          (cw_arn_cache t),
        cw_calls := cw_calls t @ snd (cw_get_tags_from_arn_body w arn client)\<rparr>)"
  by (simp add: cw_get_tags_from_arn_def split: prod.splits)

lemma cw_get_tags_from_arn_body_calls:
  "length (snd (cw_get_tags_from_arn_body w arn client)) \<le> 1"
  by (simp add: cw_get_tags_from_arn_body_def Let_def split: sum.splits)

lemma sample_arn_db: "contains sample_arn '':db:''"
  by (simp add: sample_arn_def startswith_def)

lemma sample_arn_not_domain: "\<not> contains sample_arn '':domain/''"
  by (simp add: sample_arn_def startswith_def)

section \<open>Facts about the metric lookups\<close>

lemma get_resource_tags_from_metric_rds:
  assumes "py_get metric ''namespace'' JNull = Inr (JStr ''AWS/RDS'')"
    and "py_get metric ''dimensions'' (JObj []) = Inr dimensions"
    and "py_get dimensions ''DBInstanceIdentifier'' JNull = Inr (JStr db_name)"
    and "startswith db_name (rds_prefix cx)"
    and "get_tags_from_arn w (''arn:aws-us-gov:rds:'' @ fmt (region cx) @ '':''
            @ fmt (account_id cx) @ '':db:'' @ db_name) (rds_client cx) s = (a, s1)"
  shows "get_resource_tags_from_metric w metric cx s =
     (if heap s1 ! a \<noteq> [] \<and> py_get metric ''metric_name'' JNull = Inr (JStr ''FreeStorageSpace'')
      then (length (heap s1),
            (snd (get_rds_description w (rds_client cx) db_name (s1\<lparr>heap := heap s1 @ [heap s1 ! a]\<rparr>)))
              \<lparr>heap := heap s1 @ [AList.update ''db_size''
                   (fst (get_rds_description w (rds_client cx) db_name (s1\<lparr>heap := heap s1 @ [heap s1 ! a]\<rparr>)))
                   (heap s1 ! a)]\<rparr>)
      else (length (heap s1), s1\<lparr>heap := heap s1 @ [heap s1 ! a]\<rparr>))"
  using assms
  by (simp add: get_resource_tags_from_metric_def Let_def alloc_def get_rds_description_def
      split: prod.splits option.splits)

lemma get_rds_description_frame [simp]:
  "heap (snd (get_rds_description w c n s)) = heap s"
  "arn_cache (snd (get_rds_description w c n s)) = arn_cache s"
  "name_cache (snd (get_rds_description w c n s)) = name_cache s"
  by (simp_all add: get_rds_description_def Let_def split: option.splits)

lemma get_tags_from_arn_frame:
  "rds_cache (snd (get_tags_from_arn w arn c s)) = rds_cache s"
  "name_cache (snd (get_tags_from_arn w arn c s)) = name_cache s"
  by (simp_all add: get_tags_from_arn_def alloc_def Let_def split: option.splits prod.splits)

lemma get_tags_from_arn_heap:
  "\<exists>ext. heap (snd (get_tags_from_arn w arn c s)) = heap s @ ext"
  by (simp add: get_tags_from_arn_def alloc_def Let_def split: option.splits prod.splits)


lemma get_resource_tags_from_metric_cases [case_names none s3 es rds]:
  obtains
    (none) "get_resource_tags_from_metric w metric cx s = alloc [] s"
  | (s3) bucket_name where
      "get_resource_tags_from_metric w metric cx s =
         (case get_tags_from_name w bucket_name ''S3'' (s3_client cx) s of
            (Inr a, s1) \<Rightarrow> (a, s1) | (Inl e, s1) \<Rightarrow> alloc [] s1)"
  | (es) arn where
      "get_resource_tags_from_metric w metric cx s = get_tags_from_arn w arn (es_client cx) s"
  | (rds) dimensions db_name where
      "py_get metric ''namespace'' JNull = Inr (JStr ''AWS/RDS'')"
      "py_get metric ''dimensions'' (JObj []) = Inr dimensions"
      "py_get dimensions ''DBInstanceIdentifier'' JNull = Inr (JStr db_name)"
      "startswith db_name (rds_prefix cx)"
proof (cases "py_get metric ''namespace'' JNull")
  case (Inl e)
  then show ?thesis using none by (simp add: get_resource_tags_from_metric_def)
next
  case ns: (Inr namespace)
  show ?thesis
  proof (cases "py_get metric ''dimensions'' (JObj [])")
    case (Inl e)
    then show ?thesis using none ns by (simp add: get_resource_tags_from_metric_def)
  next
    case dims: (Inr dimensions)
    consider (a) "namespace = JStr ''AWS/S3''" | (b) "namespace = JStr ''AWS/ES''"
      | (c) "namespace = JStr ''AWS/RDS''"
      | (d) "namespace \<noteq> JStr ''AWS/S3''" "namespace \<noteq> JStr ''AWS/ES''" "namespace \<noteq> JStr ''AWS/RDS''"
      by blast
    then show ?thesis
    proof cases
      case a
      show ?thesis
      proof (cases "\<exists>b. py_get dimensions ''BucketName'' JNull = Inr (JStr b) \<and> startswith b (s3_prefix cx)")
        case True
        then obtain b where "py_get dimensions ''BucketName'' JNull = Inr (JStr b)" "startswith b (s3_prefix cx)"
          by blast
        then show ?thesis using s3 [of b] ns dims a
          by (simp add: get_resource_tags_from_metric_def)
      next
        case False
        then show ?thesis using none ns dims a
          by (auto simp: get_resource_tags_from_metric_def split: sum.splits json.splits)
      qed
    next
      case b
      show ?thesis
      proof (cases "\<exists>d. py_get dimensions ''DomainName'' JNull = Inr (JStr d) \<and> startswith d (domain_prefix cx)")
        case True
        then obtain d where "py_get dimensions ''DomainName'' JNull = Inr (JStr d)" "startswith d (domain_prefix cx)"
          by blast
        then show ?thesis using es ns dims b
          by (simp add: get_resource_tags_from_metric_def Let_def)
      next
        case False
        then show ?thesis using none ns dims b
          by (auto simp: get_resource_tags_from_metric_def split: sum.splits json.splits)
      qed
    next
      case c
      show ?thesis
      proof (cases "\<exists>d. py_get dimensions ''DBInstanceIdentifier'' JNull = Inr (JStr d) \<and> startswith d (rds_prefix cx)")
        case True
        then obtain d where "py_get dimensions ''DBInstanceIdentifier'' JNull = Inr (JStr d)" "startswith d (rds_prefix cx)"
          by blast
        then show ?thesis using rds [of dimensions d] ns dims c
          by simp
      next
        case False
        then show ?thesis using none ns dims c
          by (auto simp: get_resource_tags_from_metric_def split: sum.splits json.splits)
      qed
    next
      case d
      then show ?thesis using none ns dims
        by (simp add: get_resource_tags_from_metric_def)
    qed
  qed
qed

lemma get_tags_from_arn_body_fail:
  assumes "contains arn '':domain/'' \<Longrightarrow> isl (list_tags w c arn)"
    and "contains arn '':db:'' \<Longrightarrow> isl (list_tags_for_resource w c arn)"
  shows "fst (get_tags_from_arn_body w arn c) = []"
  using assms
  by (auto simp: get_tags_from_arn_body_def Let_def isl_def split: sum.splits)

lemma get_tags_from_arn_fail:
  assumes "contains arn '':domain/'' \<Longrightarrow> isl (list_tags w c arn)"
    and "contains arn '':db:'' \<Longrightarrow> isl (list_tags_for_resource w c arn)"
    and "get_tags_from_arn w arn c s = (a, s')"
    and "misses (arn_cache s') \<noteq> misses (arn_cache s)"
  shows "heap s' ! a = []"
proof (cases "map_of (entries (arn_cache s)) (arn, c)")
  case None
  from assms(3) show ?thesis
    by (auto simp: get_tags_from_arn_miss [OF None] get_tags_from_arn_body_fail [OF assms(1,2)])
next
  case (Some b)
  from assms(3,4) show ?thesis
    by (auto simp: get_tags_from_arn_hit [OF Some])
qed

lemma get_tags_from_name_fail:
  assumes "isl (get_bucket_tagging w c name)"
    and "get_tags_from_name w name ''S3'' c s = (res, s')"
    and "misses (name_cache s') \<noteq> misses (name_cache s)"
  shows "(case res of Inr a \<Rightarrow> heap s' ! a = [] | Inl e \<Rightarrow> True)
         \<and> arn_cache s' = arn_cache s"
  using assms
  by (auto simp: get_tags_from_name_def alloc_def Let_def isl_def split: option.splits sum.splits if_splits)

lemma get_tags_from_name_frame:
  "arn_cache (snd (get_tags_from_name w name ty c s)) = arn_cache s"
  by (auto simp: get_tags_from_name_def alloc_def Let_def split: option.splits sum.splits if_splits)

lemma sample_body_org:
  "get_tags_from_arn_body (sample_aws org_tags) sample_arn 2
     = ([(''Organization GUID'', JStr ''x''), (''Owner'', JStr ''team'')],
        [ListTagsForResource 2 sample_arn])"
  using sample_arn_db sample_arn_not_domain
  by (simp add: get_tags_from_arn_body_def sample_aws_def org_tags_def tag_dict_def)

lemma sample_body_owner:
  "get_tags_from_arn_body (sample_aws owner_tags) sample_arn 2
     = ([], [ListTagsForResource 2 sample_arn])"
  using sample_arn_db sample_arn_not_domain
  by (simp add: get_tags_from_arn_body_def sample_aws_def owner_tags_def tag_dict_def)

lemma sample_arn_miss: "map_of (entries (arn_cache init_proc)) (sample_arn, 2) = None"
  by (simp add: init_proc_simps)

lemma dev_ctx_arn:
  "''arn:aws-us-gov:rds:'' @ fmt (region dev_ctx) @ '':'' @ fmt (account_id dev_ctx)
     @ '':db:'' @ ''cg-aws-broker-dev-db1'' = sample_arn"
  by (simp add: dev_ctx_def fmt_def sample_arn_def)

lemma rds_metric_fields:
  "py_get rds_metric ''namespace'' JNull = Inr (JStr ''AWS/RDS'')"
  "py_get rds_metric ''dimensions'' (JObj [])
     = Inr (JObj [(''DBInstanceIdentifier'', JStr ''cg-aws-broker-dev-db1'')])"
  "py_get (JObj [(''DBInstanceIdentifier'', JStr ''cg-aws-broker-dev-db1'')])
     ''DBInstanceIdentifier'' JNull = Inr (JStr ''cg-aws-broker-dev-db1'')"
  "py_get rds_metric ''metric_name'' JNull = Inr (JStr ''FreeStorageSpace'')"
  "startswith ''cg-aws-broker-dev-db1'' (rds_prefix dev_ctx)"
  "rds_client dev_ctx = 2"
  by (simp_all add: rds_metric_def dev_ctx_def startswith_def)

lemma pop_keys_obj:
  "pop_keys (JObj kvs) default_keys_to_remove =
     Inr (JObj (AList.delete ''region'' (AList.delete ''account_id''
            (AList.delete ''metric_stream_name'' kvs))))"
  by (simp add: default_keys_to_remove_def)

lemma get_rds_description_fail:
  assumes "map_of (entries (rds_cache s)) (c, n) = None"
    and "describe_db_instances w c n = Inl e"
  shows "get_rds_description w c n s =
     (JNull, s\<lparr>rds_cache := lru_miss (c, n) JNull (rds_cache s),
               calls := calls s @ [DescribeDBInstances c n]\<rparr>)"
  using assms by (simp add: get_rds_description_def get_rds_description_body_def)

lemma map_of_deref:
  "map_of (map (\<lambda>kv. (fst kv, deref h (snd kv))) kvs) k = map_option (deref h) (map_of kvs k)"
  by (induction kvs) auto


lemma set_delete_subset: "set (AList.delete k al) \<subseteq> set al"
  by (auto simp: AList.delete_eq)

lemma list_all_lru_hit:
  assumes "list_all P (entries c)" and "map_of (entries c) k = Some v"
  shows "list_all P (entries (lru_hit k v c))"
proof -
  from assms(2) have "(k, v) \<in> set (entries c)" by (rule map_of_SomeD)
  with assms(1) have "P (k, v)" by (simp add: list_all_iff)
  moreover from assms(1) have "list_all P (AList.delete k (entries c))"
    using set_delete_subset [of k "entries c"] by (auto simp: list_all_iff)
  ultimately show ?thesis by (simp add: lru_hit_def)
qed

lemma list_all_lru_miss:
  assumes "list_all P (entries c)" and "P (k, v)"
  shows "list_all P (entries (lru_miss k v c))"
proof -
  from assms(1) have "list_all P (AList.delete k (entries c))"
    using set_delete_subset [of k "entries c"] by (auto simp: list_all_iff)
  with assms(2) have "list_all P ((k, v) # AList.delete k (entries c))" by simp
  then have "list_all P (take maxsize ((k, v) # AList.delete k (entries c)))"
    using set_take_subset [of maxsize "(k, v) # AList.delete k (entries c)"]
    unfolding list_all_iff by blast
  then show ?thesis by (simp add: lru_miss_def)
qed

lemma list_all_mono_len:
  "list_all (\<lambda>kv. snd kv < n) xs \<Longrightarrow> n \<le> m \<Longrightarrow> list_all (\<lambda>kv. snd kv < (m::nat)) xs"
  by (auto simp: list_all_iff)

lemma cached_in_store_arn:
  assumes "cached_in_store s"
  shows "cached_in_store (snd (get_tags_from_arn w arn c s))"
proof (cases "map_of (entries (arn_cache s)) (arn, c)")
  case None
  from assms show ?thesis
    by (auto simp: get_tags_from_arn_miss [OF None] cached_in_store_def
        intro!: list_all_lru_miss intro: list_all_mono_len)
next
  case (Some a)
  from assms show ?thesis
    by (auto simp: get_tags_from_arn_hit [OF Some] cached_in_store_def
        intro!: list_all_lru_hit Some)
qed

lemma cached_in_store_name:
  assumes "cached_in_store s"
  shows "cached_in_store (snd (get_tags_from_name w name ty c s))"
proof (cases "map_of (entries (name_cache s)) (name, ty, c)")
  case None
  from assms show ?thesis
    by (auto simp: get_tags_from_name_def None cached_in_store_def alloc_def Let_def lru_raise_def
        split: sum.splits
        intro!: list_all_lru_miss intro: list_all_mono_len)
next
  case (Some a)
  from assms show ?thesis
    by (auto simp: get_tags_from_name_def Some cached_in_store_def
        intro!: list_all_lru_hit Some)
qed

lemma cached_in_store_heap:
  "cached_in_store s \<Longrightarrow> arn_cache s' = arn_cache s \<Longrightarrow> name_cache s' = name_cache s \<Longrightarrow>
   length (heap s) \<le> length (heap s') \<Longrightarrow> cached_in_store s'"
  by (auto simp: cached_in_store_def intro: list_all_mono_len)

lemma get_tags_from_name_heap:
  "\<exists>ext. heap (snd (get_tags_from_name w name ty c s)) = heap s @ ext"
  by (auto simp: get_tags_from_name_def alloc_def Let_def split: option.splits sum.splits)

lemma get_resource_tags_from_metric_inv:
  assumes "cached_in_store s"
  shows "cached_in_store (snd (get_resource_tags_from_metric w metric cx s))
       \<and> (\<exists>ext. heap (snd (get_resource_tags_from_metric w metric cx s)) = heap s @ ext)"
proof (cases w metric cx s rule: get_resource_tags_from_metric_cases)
  case none
  with assms show ?thesis
    by (auto simp: alloc_def intro: cached_in_store_heap)
next
  case (s3 bucket_name)
  obtain res1 s1 where g: "get_tags_from_name w bucket_name ''S3'' (s3_client cx) s = (res1, s1)"
    by (cases "get_tags_from_name w bucket_name ''S3'' (s3_client cx) s")
  from cached_in_store_name [OF assms, of w bucket_name "''S3''" "s3_client cx"] g
  have c1: "cached_in_store s1" by simp
  from get_tags_from_name_heap [of w bucket_name "''S3''" "s3_client cx" s] g
  obtain ext where h1: "heap s1 = heap s @ ext" by auto
  show ?thesis
  proof (cases res1)
    case (Inl e)
    with s3 g c1 h1 show ?thesis
      by (auto simp: alloc_def intro: cached_in_store_heap)
  next
    case (Inr a)
    with s3 g c1 h1 show ?thesis by simp
  qed
next
  case (es arn)
  with cached_in_store_arn [OF assms, of w arn "es_client cx"]
    get_tags_from_arn_heap [of w arn "es_client cx" s]
  show ?thesis by simp
next
  case (rds dimensions db_name)
  obtain a s1 where g: "get_tags_from_arn w (''arn:aws-us-gov:rds:'' @ fmt (region cx) @ '':''
            @ fmt (account_id cx) @ '':db:'' @ db_name) (rds_client cx) s = (a, s1)"
    by (cases "get_tags_from_arn w (''arn:aws-us-gov:rds:'' @ fmt (region cx) @ '':''
            @ fmt (account_id cx) @ '':db:'' @ db_name) (rds_client cx) s")
  note eq = get_resource_tags_from_metric_rds [OF rds g]
  from cached_in_store_arn [OF assms, of w _ "rds_client cx"] g
  have c1: "cached_in_store s1" by (metis snd_conv)
  from get_tags_from_arn_heap [of w _ "rds_client cx" s] g
  obtain ext where h1: "heap s1 = heap s @ ext" by (metis snd_conv)
  show ?thesis
    using c1 h1 unfolding eq
    by (auto intro: cached_in_store_heap)
qed

lemma lookups_inv:
  assumes "cached_in_store s"
  shows "cached_in_store (fold (\<lambda>(w, metric, cx) s. snd (get_resource_tags_from_metric w metric cx s)) ops s)
       \<and> (\<exists>ext. heap (fold (\<lambda>(w, metric, cx) s. snd (get_resource_tags_from_metric w metric cx s)) ops s)
            = heap s @ ext)"
  using assms
proof (induction ops arbitrary: s)
  case Nil
  then show ?case by simp
next
  case (Cons op ops)
  obtain w metric cx where op: "op = (w, metric, cx)" by (cases op)
  from get_resource_tags_from_metric_inv [OF Cons.prems, of w metric cx]
  obtain ext where c: "cached_in_store (snd (get_resource_tags_from_metric w metric cx s))"
    and h: "heap (snd (get_resource_tags_from_metric w metric cx s)) = heap s @ ext"
    by blast
  from Cons.IH [OF c] h show ?case
    by (auto simp: op)
qed

lemma process_metric_inv:
  assumes "cached_in_store s"
  shows "cached_in_store (snd (process_metric w metric cx s))
       \<and> (\<exists>ext. heap (snd (process_metric w metric cx s)) = heap s @ ext)"
  using assms get_resource_tags_from_metric_inv [OF assms, of w metric cx]
  by (auto simp: process_metric_def split: sum.splits prod.splits json.splits)

lemma metric_lines_inv:
  assumes "cached_in_store s"
  shows "cached_in_store (snd (metric_lines w lib cx lines acc s))
       \<and> (\<exists>ext. heap (snd (metric_lines w lib cx lines acc s)) = heap s @ ext)"
  using assms
proof (induction lines arbitrary: acc s)
  case Nil
  then show ?case by simp
next
  case (Cons l ls)
  show ?case
  proof (cases "json_loads lib l")
    case (Inl e)
    with Cons.prems show ?thesis by simp
  next
    case (Inr metric0)
    show ?thesis
    proof (cases "pop_keys metric0 default_keys_to_remove")
      case (Inl e)
      with Cons.prems \<open>json_loads lib l = Inr metric0\<close> show ?thesis by simp
    next
      case pk: (Inr metric)
      obtain res s1 where pm: "process_metric w metric cx s = (res, s1)"
        by (cases "process_metric w metric cx s")
      from process_metric_inv [OF Cons.prems, of w metric cx] pm
      obtain ext where c1: "cached_in_store s1" and h1: "heap s1 = heap s @ ext"
        by auto
      note ih = Cons.IH [OF c1]
      show ?thesis
      proof (cases res)
        case None
        with ih [of acc] h1 Inr pk pm show ?thesis by auto
      next
        case (Some metric_results)
        show ?thesis
        proof (cases "pop_client_id metric_results")
          case (Inl e)
          with c1 h1 Inr pk pm Some show ?thesis by simp
        next
          case pc: (Inr m)
          with ih [of "acc @ [m]"] h1 Inr pk pm Some show ?thesis by auto
        qed
      qed
    qed
  qed
qed

lemma metric_records_inv:
  assumes "cached_in_store s"
  shows "cached_in_store (snd (metric_records w lib cx records out s))
       \<and> (\<exists>ext. heap (snd (metric_records w lib cx records out s)) = heap s @ ext)"
  using assms
proof (induction records arbitrary: out s)
  case Nil
  then show ?case by simp
next
  case (Cons r rs)
  show ?case
  proof (cases "b64decode lib (data r)")
    case (Inl e)
    with Cons.prems show ?thesis by simp
  next
    case (Inr pre)
    obtain res s1 where ml: "metric_lines w lib cx (splitlines lib pre) [] s = (res, s1)"
      by (cases "metric_lines w lib cx (splitlines lib pre) [] s")
    from metric_lines_inv [OF Cons.prems, of w lib cx "splitlines lib pre" "[]"] ml
    obtain ext where c1: "cached_in_store s1" and h1: "heap s1 = heap s @ ext"
      by auto
    note ih = Cons.IH [OF c1]
    show ?thesis
    proof (cases res)
      case (Inl e)
      with c1 h1 Inr ml show ?thesis by simp
    next
      case pm: (Inr processed_metrics)
      show ?thesis
      proof (cases "processed_metrics = []")
        case True
        with ih [of "out @ [\<lparr>recordId = recordId r, data = data r, result = Dropped\<rparr>]"]
          h1 Inr ml pm
        show ?thesis by auto
      next
        case False
        with ih h1 Inr ml pm
        show ?thesis by (auto simp: Let_def)
      qed
    qed
  qed
qed

lemma lambda_handler_inv:
  assumes "cached_in_store s"
  shows "cached_in_store (snd (lambda_handler w lib env s3 es rds records s))
       \<and> (\<exists>ext. heap (snd (lambda_handler w lib env s3 es rds records s)) = heap s @ ext)"
  using metric_records_inv [OF assms] assms
  by (auto simp: lambda_handler_def Let_def split: sum.splits prod.splits)

lemma metric_records_prefix:
  "fst (metric_records w lib cx records acc s) = Inr out \<Longrightarrow> \<exists>rest. out = acc @ rest"
proof (induction records arbitrary: acc s)
  case Nil
  then show ?case by simp
next
  case (Cons r rs)
  then show ?case
    by (fastforce simp: Let_def split: sum.splits prod.splits if_splits)
qed

lemma get_tags_from_arn_cached:
  "get_tags_from_arn w arn c s = (b, s1) \<Longrightarrow> map_of (entries (arn_cache s1)) (arn, c) = Some b"
  by (cases "map_of (entries (arn_cache s)) (arn, c)")
     (auto simp: get_tags_from_arn_miss get_tags_from_arn_hit)

lemma cached_in_store_nth:
  "cached_in_store s \<Longrightarrow> map_of (entries (arn_cache s)) k = Some b \<Longrightarrow> b < length (heap s)"
  by (auto simp: cached_in_store_def list_all_iff dest!: map_of_SomeD)


lemma dev_env_arn:
  "''arn:aws-us-gov:rds:'' @ fmt (py_or (session_region dev_env) (AWS_REGION dev_env)) @ '':''
     @ fmt (ACCOUNT_ID dev_env) @ '':db:'' @ ''cg-aws-broker-dev-db1'' = sample_arn"
  by (simp add: dev_env_def fmt_def py_or_def unset_def sample_arn_def)

lemma sample_base:
  "get_tags_from_arn (sample_aws org_tags) sample_arn 2 init_proc
     = (0, init_proc\<lparr>heap := [[(''Organization GUID'', JStr ''x''), (''Owner'', JStr ''team'')]],
                    calls := [ListTagsForResource 2 sample_arn],
                    arn_cache := lru_miss (sample_arn, 2) 0 (arn_cache init_proc)\<rparr>)"
  by (simp add: get_tags_from_arn_miss [OF sample_arn_miss] sample_body_org init_proc_simps)

section \<open>The prefix resolver of the metric module\<close>

text \<open>
  Claim C3. \<^verbatim>\<open>make_prefixes\<close> is to fail with a configuration error when
  ENVIRONMENT is absent or not one of development, staging and production. The
  resolvers of the log module and of the provisioner do; the one of the metric module
  does not: with ENVIRONMENT unset, and with a value outside the three, it returns the
  prefixes without any environment token.
\<close>

theorem make_prefixes_unset_falls_back:
  "make_prefixes None = Inr (''cg-aws-broker-'', ''cg-'', ''cg-broker-'')
   \<and> make_prefixes (Some ''test'') = Inr (''cg-aws-broker-'', ''cg-'', ''cg-broker-'')
   \<and> cw_make_prefixes None = Inl (RuntimeError ''ENVIRONMENT is required'')
   \<and> sub_make_prefixes None = Inl (RuntimeError ''environment is required'')"
  by (simp add: make_prefixes_def cw_make_prefixes_def sub_make_prefixes_def unset_def)

section \<open>The required-tag policy\<close>

text \<open>
  Claim C2. For a locator that contains \<open>:db:\<close>, when the tag request succeeds and the
  mapping built from its answer has no key \<open>Organization GUID\<close>, the lookup that made
  the request (a cache miss) returns the empty mapping, and the empty mapping is what
  the cache then holds for the locator, whatever other tags the answer had. This holds
  for \<^verbatim>\<open>get_tags_from_arn\<close> of both transform modules.
\<close>

theorem required_tag_policy_forces_empty:
  assumes "contains arn '':db:''"
    and "list_tags_for_resource w client arn = Inr response"
    and "map_of (tag_dict response) ''Organization GUID'' = None"
  shows "(map_of (entries (arn_cache s)) (arn, client) = None \<longrightarrow>
           (case get_tags_from_arn w arn client s of
              (a, s') \<Rightarrow> heap s' ! a = [] \<and> map_of (entries (arn_cache s')) (arn, client) = Some a))
       \<and> (map_of (entries (cw_arn_cache t)) (arn, client) = None \<longrightarrow>
           (case cw_get_tags_from_arn w arn client t of
              (tags, t') \<Rightarrow> tags = [] \<and> map_of (entries (cw_arn_cache t')) (arn, client) = Some []))"
  using assms
  by (auto simp: get_tags_from_arn_def get_tags_from_arn_body_def cw_get_tags_from_arn_def
      cw_get_tags_from_arn_body_def alloc_def Let_def split: sum.splits prod.splits)

theorem required_tag_policy_forces_empty_witness:
  "contains sample_arn '':db:''
   \<and> list_tags_for_resource (sample_aws owner_tags) 2 sample_arn = Inr owner_tags
   \<and> tag_dict owner_tags = [(''Owner'', JStr ''team'')]
   \<and> map_of (entries (arn_cache init_proc)) (sample_arn, 2) = None
   \<and> map_of (entries (cw_arn_cache init_cw_proc)) (sample_arn, 2) = None
   \<and> (case get_tags_from_arn (sample_aws owner_tags) sample_arn 2 init_proc of
        (a, s') \<Rightarrow> heap s' ! a = [] \<and> map_of (entries (arn_cache s')) (sample_arn, 2) = Some a)
   \<and> (case cw_get_tags_from_arn (sample_aws owner_tags) sample_arn 2 init_cw_proc of
        (tags, t') \<Rightarrow> tags = [] \<and> map_of (entries (cw_arn_cache t')) (sample_arn, 2) = Some [])"
proof -
  have h2: "list_tags_for_resource (sample_aws owner_tags) 2 sample_arn = Inr owner_tags"
    by (simp add: sample_aws_def)
  have h3: "map_of (tag_dict owner_tags) ''Organization GUID'' = None"
    by (simp add: tag_dict_def owner_tags_def)
  have d: "tag_dict owner_tags = [(''Owner'', JStr ''team'')]"
    by (simp add: tag_dict_def owner_tags_def)
  have m1: "map_of (entries (arn_cache init_proc)) (sample_arn, 2) = None"
    by (simp add: init_proc_simps)
  have m2: "map_of (entries (cw_arn_cache init_cw_proc)) (sample_arn, 2) = None"
    by (simp add: init_cw_proc_simps)
  from required_tag_policy_forces_empty [OF sample_arn_db h2 h3,
      where s = init_proc and t = init_cw_proc] m1 m2
  show ?thesis
    using sample_arn_db h2 d by simp
qed

section \<open>The capacity tag of an RDS metric\<close>

text \<open>
  Claim C4. A metric of namespace \<open>AWS/RDS\<close> whose \<open>DBInstanceIdentifier\<close> starts with
  the RDS prefix; the base tag mapping is the one \<^verbatim>\<open>get_tags_from_arn\<close> gives for
  the instance's locator (\<open>heap s1 ! a\<close>). When the base mapping is not empty and the
  metric name is \<open>FreeStorageSpace\<close>, the mapping returned has a key \<open>db_size\<close>. When
  the base mapping is empty, the mapping returned is empty, \<^verbatim>\<open>process_metric\<close>
  returns \<^verbatim>\<open>None\<close> (the event is dropped), and \<^verbatim>\<open>get_rds_description\<close> is not
  called: its cache, with both counters, is as before, and no service call follows
  those of the tag lookup.
\<close>

theorem free_storage_db_size:
  assumes ns: "py_get metric ''namespace'' JNull = Inr (JStr ''AWS/RDS'')"
    and dims: "py_get metric ''dimensions'' (JObj []) = Inr dimensions"
    and db: "py_get dimensions ''DBInstanceIdentifier'' JNull = Inr (JStr db_name)"
    and pre: "startswith db_name (rds_prefix cx)"
    and base: "get_tags_from_arn w (''arn:aws-us-gov:rds:'' @ fmt (region cx) @ '':''
            @ fmt (account_id cx) @ '':db:'' @ db_name) (rds_client cx) s = (a, s1)"
    and res: "get_resource_tags_from_metric w metric cx s = (r, s')"
  shows "(heap s1 ! a \<noteq> [] \<and> py_get metric ''metric_name'' JNull = Inr (JStr ''FreeStorageSpace'')
           \<longrightarrow> map_of (heap s' ! r) ''db_size'' \<noteq> None)
       \<and> (heap s1 ! a = []
           \<longrightarrow> heap s' ! r = [] \<and> fst (process_metric w metric cx s) = None
               \<and> rds_cache s' = rds_cache s \<and> calls s' = calls s1)"
proof -
  note eq = get_resource_tags_from_metric_rds [OF ns dims db pre base]
  have rc: "rds_cache s1 = rds_cache s"
    using get_tags_from_arn_frame(1) [of w _ "rds_client cx" s] base by (metis snd_conv)
  show ?thesis
  proof (intro conjI impI)
    assume "heap s1 ! a \<noteq> [] \<and> py_get metric ''metric_name'' JNull = Inr (JStr ''FreeStorageSpace'')"
    with eq res show "map_of (heap s' ! r) ''db_size'' \<noteq> None"
      by (auto simp: update_conv')
  next
    assume e: "heap s1 ! a = []"
    with eq res have r: "r = length (heap s1)" and s': "s' = s1\<lparr>heap := heap s1 @ [[]]\<rparr>"
      by auto
    show "heap s' ! r = []" by (simp add: r s')
    show "rds_cache s' = rds_cache s" by (simp add: s' rc)
    show "calls s' = calls s1" by (simp add: s')
    show "fst (process_metric w metric cx s) = None"
      using ns by (simp add: process_metric_def res r s' EXPECTED_NAMESPACES_def)
  qed
qed

theorem free_storage_db_size_witness:
  "py_get rds_metric ''namespace'' JNull = Inr (JStr ''AWS/RDS'')
   \<and> py_get rds_metric ''metric_name'' JNull = Inr (JStr ''FreeStorageSpace'')
   \<and> startswith ''cg-aws-broker-dev-db1'' (rds_prefix dev_ctx)
   \<and> get_tags_from_arn (sample_aws org_tags) sample_arn 2 init_proc
       = (0, init_proc\<lparr>heap := [[(''Organization GUID'', JStr ''x''), (''Owner'', JStr ''team'')]],
                      calls := [ListTagsForResource 2 sample_arn],
                      arn_cache := lru_miss (sample_arn, 2) 0 (arn_cache init_proc)\<rparr>)
   \<and> map_of (heap (snd (get_resource_tags_from_metric (sample_aws org_tags) rds_metric dev_ctx
                           init_proc))
              ! fst (get_resource_tags_from_metric (sample_aws org_tags) rds_metric dev_ctx
                           init_proc)) ''db_size'' \<noteq> None
   \<and> get_tags_from_arn (sample_aws owner_tags) sample_arn 2 init_proc
       = (0, init_proc\<lparr>heap := [[]], calls := [ListTagsForResource 2 sample_arn],
                      arn_cache := lru_miss (sample_arn, 2) 0 (arn_cache init_proc)\<rparr>)
   \<and> heap (snd (get_resource_tags_from_metric (sample_aws owner_tags) rds_metric dev_ctx
                   init_proc))
        ! fst (get_resource_tags_from_metric (sample_aws owner_tags) rds_metric dev_ctx
                   init_proc) = []
   \<and> fst (process_metric (sample_aws owner_tags) rds_metric dev_ctx init_proc) = None
   \<and> rds_cache (snd (get_resource_tags_from_metric (sample_aws owner_tags) rds_metric dev_ctx
                        init_proc)) = rds_cache init_proc
   \<and> calls (snd (get_resource_tags_from_metric (sample_aws owner_tags) rds_metric dev_ctx
                    init_proc)) = [ListTagsForResource 2 sample_arn]"
proof -
  let ?s1 = "init_proc\<lparr>heap := [[(''Organization GUID'', JStr ''x''), (''Owner'', JStr ''team'')]],
                      calls := [ListTagsForResource 2 sample_arn],
                      arn_cache := lru_miss (sample_arn, 2) 0 (arn_cache init_proc)\<rparr>"
  let ?s2 = "init_proc\<lparr>heap := [[]], calls := [ListTagsForResource 2 sample_arn],
                      arn_cache := lru_miss (sample_arn, 2) 0 (arn_cache init_proc)\<rparr>"
  let ?arn = "''arn:aws-us-gov:rds:'' @ fmt (region dev_ctx) @ '':'' @ fmt (account_id dev_ctx)
     @ '':db:'' @ ''cg-aws-broker-dev-db1''"
  have b1: "get_tags_from_arn (sample_aws org_tags) sample_arn 2 init_proc = (0, ?s1)"
    by (simp add: get_tags_from_arn_miss [OF sample_arn_miss] sample_body_org init_proc_simps)
  have b2: "get_tags_from_arn (sample_aws owner_tags) sample_arn 2 init_proc = (0, ?s2)"
    by (simp add: get_tags_from_arn_miss [OF sample_arn_miss] sample_body_owner init_proc_simps)
  have b1': "get_tags_from_arn (sample_aws org_tags) ?arn (rds_client dev_ctx) init_proc = (0, ?s1)"
    by (simp only: dev_ctx_arn rds_metric_fields(6) b1)
  have b2': "get_tags_from_arn (sample_aws owner_tags) ?arn (rds_client dev_ctx) init_proc = (0, ?s2)"
    by (simp only: dev_ctx_arn rds_metric_fields(6) b2)
  have r1: "get_resource_tags_from_metric (sample_aws org_tags) rds_metric dev_ctx init_proc
      = (fst (get_resource_tags_from_metric (sample_aws org_tags) rds_metric dev_ctx init_proc),
         snd (get_resource_tags_from_metric (sample_aws org_tags) rds_metric dev_ctx init_proc))"
    by simp
  have r2: "get_resource_tags_from_metric (sample_aws owner_tags) rds_metric dev_ctx init_proc
      = (fst (get_resource_tags_from_metric (sample_aws owner_tags) rds_metric dev_ctx init_proc),
         snd (get_resource_tags_from_metric (sample_aws owner_tags) rds_metric dev_ctx init_proc))"
    by simp
  note t1 = free_storage_db_size [OF rds_metric_fields(1,2,3,5) b1' r1]
  note t2 = free_storage_db_size [OF rds_metric_fields(1,2,3,5) b2' r2]
  from t1 have c1: "map_of (heap (snd (get_resource_tags_from_metric (sample_aws org_tags)
        rds_metric dev_ctx init_proc)) ! fst (get_resource_tags_from_metric (sample_aws org_tags)
        rds_metric dev_ctx init_proc)) ''db_size'' \<noteq> None"
    by (simp add: rds_metric_fields)
  from t2 have c2: "heap (snd (get_resource_tags_from_metric (sample_aws owner_tags) rds_metric
        dev_ctx init_proc)) ! fst (get_resource_tags_from_metric (sample_aws owner_tags)
        rds_metric dev_ctx init_proc) = []
      \<and> fst (process_metric (sample_aws owner_tags) rds_metric dev_ctx init_proc) = None
      \<and> rds_cache (snd (get_resource_tags_from_metric (sample_aws owner_tags) rds_metric dev_ctx
                        init_proc)) = rds_cache init_proc
      \<and> calls (snd (get_resource_tags_from_metric (sample_aws owner_tags) rds_metric dev_ctx
                    init_proc)) = [ListTagsForResource 2 sample_arn]"
    by simp
  from b1 b2 c1 c2 show ?thesis
    by (simp add: rds_metric_fields)
qed

section \<open>A failing tag request\<close>

text \<open>
  Claim C7, as the code has it. A lookup whose tag requests all fail, with any
  exception, returns the empty mapping and no exception, one resource at a time (the
  other resources' requests may succeed):
  \<^item> \<^verbatim>\<open>get_tags_from_arn\<close> of the log module, for every locator, on a cache miss
    with a failing request;
  \<^item> \<^verbatim>\<open>get_tags_from_arn\<close> of the metric module, for every locator, on a cache
    miss, when each request it makes for that locator fails (one request for a locator
    with \<open>:domain/\<close>, one for a locator with \<open>:db:\<close>);
  \<^item> \<^verbatim>\<open>get_resource_tags_from_metric\<close> for a bucket metric whose
    \<^verbatim>\<open>get_bucket_tagging\<close> request fails (this covers the exceptions that
    \<^verbatim>\<open>get_tags_from_name\<close> lets through), for a domain metric whose
    \<^verbatim>\<open>list_tags\<close> request fails, and for a database metric whose
    \<^verbatim>\<open>list_tags_for_resource\<close> request fails; the side condition on the other
    marker says that a second request, if the locator causes one, fails too.
    \<^verbatim>\<open>process_metric\<close> then returns \<^verbatim>\<open>None\<close>: that metric is dropped.

  A failing request is not always turned into the empty mapping: for a locator of the
  metric module with both markers, a failing second request keeps the tags of the
  first (see the counterexample below).
\<close>

theorem fetch_failure_gives_empty:
  "(map_of (entries (cw_arn_cache t)) (arn, client) = None
      \<and> list_tags_for_resource w client arn = Inl e
      \<longrightarrow> fst (cw_get_tags_from_arn w arn client t) = [])
   \<and> (map_of (entries (arn_cache s)) (arn, client) = None
      \<and> (contains arn '':domain/'' \<longrightarrow> isl (list_tags w client arn))
      \<and> (contains arn '':db:'' \<longrightarrow> isl (list_tags_for_resource w client arn))
      \<longrightarrow> (case get_tags_from_arn w arn client s of (a, s') \<Rightarrow> heap s' ! a = []))
   \<and> (py_get metric ''namespace'' JNull = Inr (JStr ''AWS/S3'')
      \<and> py_get metric ''dimensions'' (JObj []) = Inr dimensions
      \<and> py_get dimensions ''BucketName'' JNull = Inr (JStr bucket_name)
      \<and> map_of (entries (name_cache s)) (bucket_name, ''S3'', s3_client cx) = None
      \<and> get_bucket_tagging w (s3_client cx) bucket_name = Inl e
      \<longrightarrow> heap (snd (get_resource_tags_from_metric w metric cx s))
            ! fst (get_resource_tags_from_metric w metric cx s) = []
          \<and> fst (process_metric w metric cx s) = None)
   \<and> (py_get metric ''namespace'' JNull = Inr (JStr ''AWS/ES'')
      \<and> py_get metric ''dimensions'' (JObj []) = Inr dimensions
      \<and> py_get dimensions ''DomainName'' JNull = Inr (JStr domain_name)
      \<and> es_arn = ''arn:aws-us-gov:es:'' @ fmt (region cx) @ '':'' @ fmt (account_id cx)
                  @ '':domain/'' @ domain_name
      \<and> map_of (entries (arn_cache s)) (es_arn, es_client cx) = None
      \<and> list_tags w (es_client cx) es_arn = Inl e
      \<and> (contains es_arn '':db:'' \<longrightarrow> isl (list_tags_for_resource w (es_client cx) es_arn))
      \<longrightarrow> heap (snd (get_resource_tags_from_metric w metric cx s))
            ! fst (get_resource_tags_from_metric w metric cx s) = []
          \<and> fst (process_metric w metric cx s) = None)
   \<and> (py_get metric ''namespace'' JNull = Inr (JStr ''AWS/RDS'')
      \<and> py_get metric ''dimensions'' (JObj []) = Inr dimensions
      \<and> py_get dimensions ''DBInstanceIdentifier'' JNull = Inr (JStr db_name)
      \<and> rds_arn = ''arn:aws-us-gov:rds:'' @ fmt (region cx) @ '':'' @ fmt (account_id cx)
                   @ '':db:'' @ db_name
      \<and> map_of (entries (arn_cache s)) (rds_arn, rds_client cx) = None
      \<and> list_tags_for_resource w (rds_client cx) rds_arn = Inl e
      \<and> (contains rds_arn '':domain/'' \<longrightarrow> isl (list_tags w (rds_client cx) rds_arn))
      \<longrightarrow> heap (snd (get_resource_tags_from_metric w metric cx s))
            ! fst (get_resource_tags_from_metric w metric cx s) = []
          \<and> fst (process_metric w metric cx s) = None)"
  (is "?A \<and> ?B \<and> ?S3 \<and> ?ES \<and> ?RDS")
proof -
  have pm: "fst (process_metric w metric cx s) = None"
    if "heap (snd (get_resource_tags_from_metric w metric cx s))
            ! fst (get_resource_tags_from_metric w metric cx s) = []"
    using that by (simp add: process_metric_def split_beta split: sum.splits json.splits)
  have A: ?A
    by (auto simp: cw_get_tags_from_arn_def cw_get_tags_from_arn_body_def Let_def)
  have B: ?B
  proof
    assume h: "map_of (entries (arn_cache s)) (arn, client) = None
      \<and> (contains arn '':domain/'' \<longrightarrow> isl (list_tags w client arn))
      \<and> (contains arn '':db:'' \<longrightarrow> isl (list_tags_for_resource w client arn))"
    then have "fst (get_tags_from_arn_body w arn client) = []"
      by (intro get_tags_from_arn_body_fail) simp_all
    with h show "case get_tags_from_arn w arn client s of (a, s') \<Rightarrow> heap s' ! a = []"
      by (simp add: get_tags_from_arn_miss)
  qed
  have S3: ?S3
  proof
    assume h: "py_get metric ''namespace'' JNull = Inr (JStr ''AWS/S3'')
      \<and> py_get metric ''dimensions'' (JObj []) = Inr dimensions
      \<and> py_get dimensions ''BucketName'' JNull = Inr (JStr bucket_name)
      \<and> map_of (entries (name_cache s)) (bucket_name, ''S3'', s3_client cx) = None
      \<and> get_bucket_tagging w (s3_client cx) bucket_name = Inl e"
    then have "heap (snd (get_resource_tags_from_metric w metric cx s))
            ! fst (get_resource_tags_from_metric w metric cx s) = []"
      by (simp add: get_resource_tags_from_metric_def get_tags_from_name_def alloc_def Let_def)
    with pm show "heap (snd (get_resource_tags_from_metric w metric cx s))
            ! fst (get_resource_tags_from_metric w metric cx s) = []
          \<and> fst (process_metric w metric cx s) = None"
      by simp
  qed
  have ES: ?ES
  proof
    assume h: "py_get metric ''namespace'' JNull = Inr (JStr ''AWS/ES'')
      \<and> py_get metric ''dimensions'' (JObj []) = Inr dimensions
      \<and> py_get dimensions ''DomainName'' JNull = Inr (JStr domain_name)
      \<and> es_arn = ''arn:aws-us-gov:es:'' @ fmt (region cx) @ '':'' @ fmt (account_id cx)
                  @ '':domain/'' @ domain_name
      \<and> map_of (entries (arn_cache s)) (es_arn, es_client cx) = None
      \<and> list_tags w (es_client cx) es_arn = Inl e
      \<and> (contains es_arn '':db:'' \<longrightarrow> isl (list_tags_for_resource w (es_client cx) es_arn))"
    then have miss: "map_of (entries (arn_cache s)) (es_arn, es_client cx) = None"
      and lt: "list_tags w (es_client cx) es_arn = Inl e"
      and lr: "contains es_arn '':db:'' \<longrightarrow> isl (list_tags_for_resource w (es_client cx) es_arn)"
      by blast+
    have "fst (get_tags_from_arn_body w es_arn (es_client cx)) = []"
    proof (rule get_tags_from_arn_body_fail)
      show "isl (list_tags w (es_client cx) es_arn)" by (simp only: lt sum.disc)
      show "isl (list_tags_for_resource w (es_client cx) es_arn)" if "contains es_arn '':db:''"
        using lr that by blast
    qed
    then have g: "heap (snd (get_tags_from_arn w es_arn (es_client cx) s))
        ! fst (get_tags_from_arn w es_arn (es_client cx) s) = []"
      by (simp add: get_tags_from_arn_miss [OF miss])
    have eq: "get_resource_tags_from_metric w metric cx s
        = (if startswith domain_name (domain_prefix cx)
           then get_tags_from_arn w es_arn (es_client cx) s else alloc [] s)"
      using h by (simp add: get_resource_tags_from_metric_def Let_def)
    have "heap (snd (get_resource_tags_from_metric w metric cx s))
            ! fst (get_resource_tags_from_metric w metric cx s) = []"
      unfolding eq using g by (simp add: alloc_def)
    with pm show "heap (snd (get_resource_tags_from_metric w metric cx s))
            ! fst (get_resource_tags_from_metric w metric cx s) = []
          \<and> fst (process_metric w metric cx s) = None"
      by simp
  qed
  have RDS: ?RDS
  proof
    assume h: "py_get metric ''namespace'' JNull = Inr (JStr ''AWS/RDS'')
      \<and> py_get metric ''dimensions'' (JObj []) = Inr dimensions
      \<and> py_get dimensions ''DBInstanceIdentifier'' JNull = Inr (JStr db_name)
      \<and> rds_arn = ''arn:aws-us-gov:rds:'' @ fmt (region cx) @ '':'' @ fmt (account_id cx)
                   @ '':db:'' @ db_name
      \<and> map_of (entries (arn_cache s)) (rds_arn, rds_client cx) = None
      \<and> list_tags_for_resource w (rds_client cx) rds_arn = Inl e
      \<and> (contains rds_arn '':domain/'' \<longrightarrow> isl (list_tags w (rds_client cx) rds_arn))"
    then have miss: "map_of (entries (arn_cache s)) (rds_arn, rds_client cx) = None"
      and ns: "py_get metric ''namespace'' JNull = Inr (JStr ''AWS/RDS'')"
      and dm: "py_get metric ''dimensions'' (JObj []) = Inr dimensions"
      and db: "py_get dimensions ''DBInstanceIdentifier'' JNull = Inr (JStr db_name)"
      and arn: "rds_arn = ''arn:aws-us-gov:rds:'' @ fmt (region cx) @ '':'' @ fmt (account_id cx)
                   @ '':db:'' @ db_name"
      and lr: "list_tags_for_resource w (rds_client cx) rds_arn = Inl e"
      and lt: "contains rds_arn '':domain/'' \<longrightarrow> isl (list_tags w (rds_client cx) rds_arn)"
      by blast+
    have b: "fst (get_tags_from_arn_body w rds_arn (rds_client cx)) = []"
    proof (rule get_tags_from_arn_body_fail)
      show "isl (list_tags_for_resource w (rds_client cx) rds_arn)" by (simp only: lr sum.disc)
      show "isl (list_tags w (rds_client cx) rds_arn)" if "contains rds_arn '':domain/''"
        using lt that by blast
    qed
    show "heap (snd (get_resource_tags_from_metric w metric cx s))
            ! fst (get_resource_tags_from_metric w metric cx s) = []
          \<and> fst (process_metric w metric cx s) = None"
    proof (cases "startswith db_name (rds_prefix cx)")
      case True
      have base: "get_tags_from_arn w (''arn:aws-us-gov:rds:'' @ fmt (region cx) @ '':''
            @ fmt (account_id cx) @ '':db:'' @ db_name) (rds_client cx) s
          = (length (heap s),
             s\<lparr>heap := heap s @ [fst (get_tags_from_arn_body w rds_arn (rds_client cx))],
               calls := calls s @ snd (get_tags_from_arn_body w rds_arn (rds_client cx)),
               arn_cache := lru_miss (rds_arn, rds_client cx) (length (heap s)) (arn_cache s)\<rparr>)"
        using get_tags_from_arn_miss [OF miss, of w] unfolding arn .
      have "heap (snd (get_resource_tags_from_metric w metric cx s))
            ! fst (get_resource_tags_from_metric w metric cx s) = []"
        unfolding get_resource_tags_from_metric_rds [OF ns dm db True base]
        by (simp add: b nth_append)
      with pm show ?thesis by simp
    next
      case False
      with ns dm db have "get_resource_tags_from_metric w metric cx s = alloc [] s"
        by (simp add: get_resource_tags_from_metric_def)
      then have "heap (snd (get_resource_tags_from_metric w metric cx s))
            ! fst (get_resource_tags_from_metric w metric cx s) = []"
        by (simp add: alloc_def)
      with pm show ?thesis by simp
    qed
  qed
  from A B S3 ES RDS show ?thesis by blast
qed

theorem fetch_failure_gives_empty_witness:
  "map_of (entries (cw_arn_cache init_cw_proc)) (sample_arn, 2) = None
   \<and> list_tags_for_resource no_rds_tags_aws 2 sample_arn = Inl (ClientError ''AccessDenied'')
   \<and> list_tags no_rds_tags_aws 2 sample_arn = Inr org_tags
   \<and> fst (cw_get_tags_from_arn no_rds_tags_aws sample_arn 2 init_cw_proc) = []
   \<and> map_of (entries (arn_cache init_proc)) (sample_arn, 2) = None
   \<and> contains sample_arn '':domain/'' = False
   \<and> heap (snd (get_tags_from_arn no_rds_tags_aws sample_arn 2 init_proc))
        ! fst (get_tags_from_arn no_rds_tags_aws sample_arn 2 init_proc) = []
   \<and> get_bucket_tagging no_bucket_tags_aws 0 ''development-cg-bucket1''
        = Inl (ClientError ''AccessDenied'')
   \<and> list_tags no_bucket_tags_aws 1 sample_arn = Inr org_tags
   \<and> heap (snd (get_resource_tags_from_metric no_bucket_tags_aws s3_metric dev_ctx init_proc))
        ! fst (get_resource_tags_from_metric no_bucket_tags_aws s3_metric dev_ctx init_proc) = []
   \<and> fst (process_metric no_bucket_tags_aws s3_metric dev_ctx init_proc) = None
   \<and> list_tags no_es_tags_aws 1 ''arn:aws-us-gov:es:us-gov-west-1:123456:domain/cg-broker-dev-search''
        = Inl (ClientError ''AccessDenied'')
   \<and> contains ''arn:aws-us-gov:es:us-gov-west-1:123456:domain/cg-broker-dev-search'' '':db:''
        = False
   \<and> heap (snd (get_resource_tags_from_metric no_es_tags_aws (es_metric ''cg-broker-dev-search'')
          dev_ctx init_proc))
        ! fst (get_resource_tags_from_metric no_es_tags_aws (es_metric ''cg-broker-dev-search'')
            dev_ctx init_proc) = []
   \<and> fst (process_metric no_es_tags_aws (es_metric ''cg-broker-dev-search'') dev_ctx init_proc)
        = None
   \<and> heap (snd (get_resource_tags_from_metric no_rds_tags_aws rds_metric dev_ctx init_proc))
        ! fst (get_resource_tags_from_metric no_rds_tags_aws rds_metric dev_ctx init_proc) = []
   \<and> fst (process_metric no_rds_tags_aws rds_metric dev_ctx init_proc) = None"
proof -
  let ?deny = "ClientError ''AccessDenied''"
  let ?es_arn = "''arn:aws-us-gov:es:us-gov-west-1:123456:domain/cg-broker-dev-search''"
  have m: "map_of (entries (cw_arn_cache init_cw_proc)) (sample_arn, 2) = None"
    by (simp add: init_cw_proc_simps)
  have f: "list_tags_for_resource no_rds_tags_aws 2 sample_arn = Inl ?deny"
    "list_tags no_rds_tags_aws 2 sample_arn = Inr org_tags"
    "get_bucket_tagging no_bucket_tags_aws 0 ''development-cg-bucket1'' = Inl ?deny"
    "list_tags no_bucket_tags_aws 1 sample_arn = Inr org_tags"
    "list_tags no_es_tags_aws 1 ?es_arn = Inl ?deny"
    by (simp_all add: no_rds_tags_aws_def no_bucket_tags_aws_def no_es_tags_aws_def
        sample_aws_def)
  have nd: "contains sample_arn '':domain/'' = False"
    using sample_arn_not_domain by simp
  have ne: "contains ?es_arn '':db:'' = False"
    by code_simp
  have a: "fst (cw_get_tags_from_arn no_rds_tags_aws sample_arn 2 init_cw_proc) = []"
  proof -
    have "map_of (entries (cw_arn_cache init_cw_proc)) (sample_arn, 2) = None
        \<and> list_tags_for_resource no_rds_tags_aws 2 sample_arn = Inl ?deny"
      using m f(1) by blast
    then show ?thesis
      by (rule fetch_failure_gives_empty [where t = init_cw_proc and arn = sample_arn
            and client = 2 and w = no_rds_tags_aws and e = ?deny, THEN conjunct1, THEN mp])
  qed
  have b: "heap (snd (get_tags_from_arn no_rds_tags_aws sample_arn 2 init_proc))
        ! fst (get_tags_from_arn no_rds_tags_aws sample_arn 2 init_proc) = []"
  proof -
    have "map_of (entries (arn_cache init_proc)) (sample_arn, 2) = None
        \<and> (contains sample_arn '':domain/'' \<longrightarrow> isl (list_tags no_rds_tags_aws 2 sample_arn))
        \<and> (contains sample_arn '':db:''
            \<longrightarrow> isl (list_tags_for_resource no_rds_tags_aws 2 sample_arn))"
      using sample_arn_miss nd f(1) by simp
    then have "case get_tags_from_arn no_rds_tags_aws sample_arn 2 init_proc of
        (a, s') \<Rightarrow> heap s' ! a = []"
      by (rule fetch_failure_gives_empty [where s = init_proc and arn = sample_arn
            and client = 2 and w = no_rds_tags_aws,
            THEN conjunct2, THEN conjunct1, THEN mp])
    then show ?thesis
      by (simp add: split_beta)
  qed
  have c: "heap (snd (get_resource_tags_from_metric no_bucket_tags_aws s3_metric dev_ctx init_proc))
        ! fst (get_resource_tags_from_metric no_bucket_tags_aws s3_metric dev_ctx init_proc) = []
      \<and> fst (process_metric no_bucket_tags_aws s3_metric dev_ctx init_proc) = None"
  proof -
    have "py_get s3_metric ''namespace'' JNull = Inr (JStr ''AWS/S3'')
        \<and> py_get s3_metric ''dimensions'' (JObj [])
            = Inr (JObj [(''BucketName'', JStr ''development-cg-bucket1'')])
        \<and> py_get (JObj [(''BucketName'', JStr ''development-cg-bucket1'')]) ''BucketName'' JNull
            = Inr (JStr ''development-cg-bucket1'')
        \<and> map_of (entries (name_cache init_proc))
            (''development-cg-bucket1'', ''S3'', s3_client dev_ctx) = None
        \<and> get_bucket_tagging no_bucket_tags_aws (s3_client dev_ctx) ''development-cg-bucket1''
            = Inl ?deny"
      by (simp add: s3_metric_def init_proc_simps dev_ctx_def no_bucket_tags_aws_def)
    then show ?thesis
      by (rule fetch_failure_gives_empty [where s = init_proc and w = no_bucket_tags_aws
            and metric = s3_metric and cx = dev_ctx and e = ?deny
            and bucket_name = "''development-cg-bucket1''"
            and dimensions = "JObj [(''BucketName'', JStr ''development-cg-bucket1'')]",
            THEN conjunct2, THEN conjunct2, THEN conjunct1, THEN mp])
  qed
  have d: "heap (snd (get_resource_tags_from_metric no_es_tags_aws (es_metric ''cg-broker-dev-search'')
          dev_ctx init_proc))
        ! fst (get_resource_tags_from_metric no_es_tags_aws (es_metric ''cg-broker-dev-search'')
            dev_ctx init_proc) = []
      \<and> fst (process_metric no_es_tags_aws (es_metric ''cg-broker-dev-search'') dev_ctx init_proc)
        = None"
  proof -
    have "py_get (es_metric ''cg-broker-dev-search'') ''namespace'' JNull = Inr (JStr ''AWS/ES'')
        \<and> py_get (es_metric ''cg-broker-dev-search'') ''dimensions'' (JObj [])
            = Inr (JObj [(''DomainName'', JStr ''cg-broker-dev-search'')])
        \<and> py_get (JObj [(''DomainName'', JStr ''cg-broker-dev-search'')]) ''DomainName'' JNull
            = Inr (JStr ''cg-broker-dev-search'')
        \<and> ?es_arn = ''arn:aws-us-gov:es:'' @ fmt (region dev_ctx) @ '':''
              @ fmt (account_id dev_ctx) @ '':domain/'' @ ''cg-broker-dev-search''
        \<and> map_of (entries (arn_cache init_proc)) (?es_arn, es_client dev_ctx) = None
        \<and> list_tags no_es_tags_aws (es_client dev_ctx) ?es_arn = Inl ?deny
        \<and> (contains ?es_arn '':db:''
            \<longrightarrow> isl (list_tags_for_resource no_es_tags_aws (es_client dev_ctx) ?es_arn))"
      using ne
      by (simp add: es_metric_def init_proc_simps dev_ctx_def no_es_tags_aws_def fmt_def)
    then show ?thesis
      by (rule fetch_failure_gives_empty [where s = init_proc and w = no_es_tags_aws
            and metric = "es_metric ''cg-broker-dev-search''" and cx = dev_ctx and e = ?deny
            and domain_name = "''cg-broker-dev-search''" and es_arn = ?es_arn
            and dimensions = "JObj [(''DomainName'', JStr ''cg-broker-dev-search'')]",
            THEN conjunct2, THEN conjunct2, THEN conjunct2, THEN conjunct1, THEN mp])
  qed
  have e: "heap (snd (get_resource_tags_from_metric no_rds_tags_aws rds_metric dev_ctx init_proc))
        ! fst (get_resource_tags_from_metric no_rds_tags_aws rds_metric dev_ctx init_proc) = []
      \<and> fst (process_metric no_rds_tags_aws rds_metric dev_ctx init_proc) = None"
  proof -
    have "py_get rds_metric ''namespace'' JNull = Inr (JStr ''AWS/RDS'')
        \<and> py_get rds_metric ''dimensions'' (JObj [])
            = Inr (JObj [(''DBInstanceIdentifier'', JStr ''cg-aws-broker-dev-db1'')])
        \<and> py_get (JObj [(''DBInstanceIdentifier'', JStr ''cg-aws-broker-dev-db1'')])
              ''DBInstanceIdentifier'' JNull
            = Inr (JStr ''cg-aws-broker-dev-db1'')
        \<and> sample_arn = ''arn:aws-us-gov:rds:'' @ fmt (region dev_ctx) @ '':''
              @ fmt (account_id dev_ctx) @ '':db:'' @ ''cg-aws-broker-dev-db1''
        \<and> map_of (entries (arn_cache init_proc)) (sample_arn, rds_client dev_ctx) = None
        \<and> list_tags_for_resource no_rds_tags_aws (rds_client dev_ctx) sample_arn = Inl ?deny
        \<and> (contains sample_arn '':domain/''
            \<longrightarrow> isl (list_tags no_rds_tags_aws (rds_client dev_ctx) sample_arn))"
      using nd
      by (simp add: rds_metric_def init_proc_simps dev_ctx_def no_rds_tags_aws_def fmt_def
          sample_arn_def)
    then show ?thesis
      by (rule fetch_failure_gives_empty [where s = init_proc and w = no_rds_tags_aws
            and metric = rds_metric and cx = dev_ctx and e = ?deny
            and db_name = "''cg-aws-broker-dev-db1''" and rds_arn = sample_arn
            and dimensions = "JObj [(''DBInstanceIdentifier'', JStr ''cg-aws-broker-dev-db1'')]",
            THEN conjunct2, THEN conjunct2, THEN conjunct2, THEN conjunct2, THEN mp])
  qed
  from m f nd ne a b c d e sample_arn_miss show ?thesis
    by simp
qed

text \<open>
  Claim C7 as stated fails in the metric module for a locator that contains both
  \<open>:domain/\<close> and \<open>:db:\<close>: the \<^verbatim>\<open>list_tags\<close> request succeeds, the
  \<^verbatim>\<open>list_tags_for_resource\<close> request fails and is caught, and the lookup returns the
  tags of the first request, not the empty mapping; the metric is kept.
\<close>

theorem second_request_failure_counterexample:
  "contains ''arn:aws-us-gov:es:us-gov-west-1:123456:domain/cg-broker-dev-a:db:b'' '':domain/''
   \<and> contains ''arn:aws-us-gov:es:us-gov-west-1:123456:domain/cg-broker-dev-a:db:b'' '':db:''
   \<and> list_tags no_rds_tags_aws 1
        ''arn:aws-us-gov:es:us-gov-west-1:123456:domain/cg-broker-dev-a:db:b'' = Inr org_tags
   \<and> list_tags_for_resource no_rds_tags_aws 1
        ''arn:aws-us-gov:es:us-gov-west-1:123456:domain/cg-broker-dev-a:db:b''
        = Inl (ClientError ''AccessDenied'')
   \<and> heap (snd (get_tags_from_arn no_rds_tags_aws
          ''arn:aws-us-gov:es:us-gov-west-1:123456:domain/cg-broker-dev-a:db:b'' 1 init_proc))
        ! fst (get_tags_from_arn no_rds_tags_aws
            ''arn:aws-us-gov:es:us-gov-west-1:123456:domain/cg-broker-dev-a:db:b'' 1 init_proc)
        = [(''Organization GUID'', JStr ''x''), (''Owner'', JStr ''team'')]
   \<and> heap (snd (get_resource_tags_from_metric no_rds_tags_aws
          (es_metric ''cg-broker-dev-a:db:b'') dev_ctx init_proc))
        ! fst (get_resource_tags_from_metric no_rds_tags_aws
            (es_metric ''cg-broker-dev-a:db:b'') dev_ctx init_proc)
        = [(''Organization GUID'', JStr ''x''), (''Owner'', JStr ''team'')]
   \<and> calls (snd (get_resource_tags_from_metric no_rds_tags_aws
          (es_metric ''cg-broker-dev-a:db:b'') dev_ctx init_proc))
        = [ListTags 1 ''arn:aws-us-gov:es:us-gov-west-1:123456:domain/cg-broker-dev-a:db:b'',
           ListTagsForResource 1
             ''arn:aws-us-gov:es:us-gov-west-1:123456:domain/cg-broker-dev-a:db:b'']
   \<and> fst (process_metric no_rds_tags_aws (es_metric ''cg-broker-dev-a:db:b'') dev_ctx init_proc)
        = Some (JObj [(''namespace'', JStr ''AWS/ES''),
                      (''metric_name'', JStr ''FreeStorageSpace''),
                      (''dimensions'', JObj [(''DomainName'', JStr ''cg-broker-dev-a:db:b'')]),
                      (''Tags'', JRef 0)])"
  by code_simp

section \<open>The merge of the capacity tag and the cached mapping\<close>

text \<open>
  Claim C6. The state satisfies the invariant of the store (every cached address is
  an address of the store; it holds at the start of a process and every lookup keeps
  it). Then:
  \<^item> a mapping that is in the store (so every mapping a cache holds) is the same after
    any sequence of calls of \<^verbatim>\<open>get_resource_tags_from_metric\<close>, whatever the
    metrics, contexts and service answers, and the invariant holds after the sequence;
    the same holds for a whole run of \<^verbatim>\<open>lambda_handler\<close> on any batch;
  \<^item> for an RDS metric with a matching instance name: the mapping returned (\<open>r\<close>) is
    not the object the cache holds (\<open>b\<close>); the cached object is, after the call, the
    base mapping as \<^verbatim>\<open>get_tags_from_arn\<close> gave it; when the capacity tag is merged,
    it is merged into the returned copy; and the next \<^verbatim>\<open>get_tags_from_arn\<close> for that
    locator is a cache hit that returns the same object \<open>b\<close>, holding the base mapping,
    with no \<open>db_size\<close> key when the base mapping had none.
\<close>

theorem db_size_merge_on_copy:
  assumes ok: "cached_in_store s"
  shows "(a < length (heap s) \<longrightarrow>
           heap (fold (\<lambda>(w, metric, cx) s. snd (get_resource_tags_from_metric w metric cx s)) ops s) ! a
             = heap s ! a)
       \<and> cached_in_store
           (fold (\<lambda>(w, metric, cx) s. snd (get_resource_tags_from_metric w metric cx s)) ops s)
       \<and> (a < length (heap s) \<longrightarrow>
           heap (snd (lambda_handler wh lib env s3 es rds records s)) ! a = heap s ! a)
       \<and> cached_in_store (snd (lambda_handler wh lib env s3 es rds records s))
       \<and> (py_get metric ''namespace'' JNull = Inr (JStr ''AWS/RDS'')
          \<and> py_get metric ''dimensions'' (JObj []) = Inr dimensions
          \<and> py_get dimensions ''DBInstanceIdentifier'' JNull = Inr (JStr db_name)
          \<and> startswith db_name (rds_prefix cx)
          \<and> get_tags_from_arn w (''arn:aws-us-gov:rds:'' @ fmt (region cx) @ '':''
                @ fmt (account_id cx) @ '':db:'' @ db_name) (rds_client cx) s = (b, s1)
          \<and> get_resource_tags_from_metric w metric cx s = (r, s')
          \<longrightarrow> r \<noteq> b \<and> heap s' ! b = heap s1 ! b
              \<and> (heap s1 ! b \<noteq> []
                   \<and> py_get metric ''metric_name'' JNull = Inr (JStr ''FreeStorageSpace'')
                  \<longrightarrow> (\<exists>sz. heap s' ! r = AList.update ''db_size'' sz (heap s1 ! b)))
              \<and> (case get_tags_from_arn w' (''arn:aws-us-gov:rds:'' @ fmt (region cx) @ '':''
                        @ fmt (account_id cx) @ '':db:'' @ db_name) (rds_client cx) s' of
                    (b2, s2) \<Rightarrow>
                      b2 = b \<and> heap s2 ! b2 = heap s1 ! b
                      \<and> misses (arn_cache s2) = misses (arn_cache s')
                      \<and> hits (arn_cache s2) = hits (arn_cache s') + 1
                      \<and> (map_of (heap s1 ! b) ''db_size'' = None
                          \<longrightarrow> map_of (heap s2 ! b2) ''db_size'' = None)))"
  (is "?frame \<and> ?inv \<and> ?hframe \<and> ?hinv \<and> (?scenario \<longrightarrow> ?after)")
proof (intro conjI impI)
  assume "a < length (heap s)"
  with lookups_inv [OF ok, of ops]
  show "heap (fold (\<lambda>(w, metric, cx) s. snd (get_resource_tags_from_metric w metric cx s)) ops s) ! a
             = heap s ! a"
    by (auto simp: nth_append)
next
  from lookups_inv [OF ok, of ops] show ?inv by simp
next
  assume "a < length (heap s)"
  with lambda_handler_inv [OF ok, of wh lib env s3 es rds records]
  show "heap (snd (lambda_handler wh lib env s3 es rds records s)) ! a = heap s ! a"
    by (auto simp: nth_append)
next
  from lambda_handler_inv [OF ok, of wh lib env s3 es rds records] show ?hinv by simp
next
  assume sc: ?scenario
  let ?arn = "''arn:aws-us-gov:rds:'' @ fmt (region cx) @ '':''
                @ fmt (account_id cx) @ '':db:'' @ db_name"
  from sc have base: "get_tags_from_arn w ?arn (rds_client cx) s = (b, s1)"
    and res: "get_resource_tags_from_metric w metric cx s = (r, s')"
    by simp_all
  from sc have ns: "py_get metric ''namespace'' JNull = Inr (JStr ''AWS/RDS'')"
    and dm: "py_get metric ''dimensions'' (JObj []) = Inr dimensions"
    and db: "py_get dimensions ''DBInstanceIdentifier'' JNull = Inr (JStr db_name)"
    and sw: "startswith db_name (rds_prefix cx)"
    by simp_all
  note eq = get_resource_tags_from_metric_rds [OF ns dm db sw base]
  have c1: "cached_in_store s1"
    using cached_in_store_arn [OF ok, of w ?arn "rds_client cx"] base by simp
  have cb: "map_of (entries (arn_cache s1)) (?arn, rds_client cx) = Some b"
    using base by (rule get_tags_from_arn_cached)
  have lt: "b < length (heap s1)"
    using c1 cb by (rule cached_in_store_nth)
  have r: "r = length (heap s1)"
    using eq res by (auto split: if_splits)
  have ac: "arn_cache s' = arn_cache s1"
    using eq res by (auto split: if_splits)
  have hs: "\<exists>x. heap s' = heap s1 @ [x]"
    using eq res by (auto split: if_splits)
  have hb: "heap s' ! b = heap s1 ! b"
    using hs lt by (auto simp: nth_append)
  have hit: "get_tags_from_arn w' ?arn (rds_client cx) s'
      = (b, s'\<lparr>arn_cache := lru_hit (?arn, rds_client cx) b (arn_cache s')\<rparr>)"
    using cb ac by (intro get_tags_from_arn_hit) simp
  show "r \<noteq> b" using r lt by simp
  show "heap s' ! b = heap s1 ! b" by (rule hb)
  show "\<exists>sz. heap s' ! r = AList.update ''db_size'' sz (heap s1 ! b)"
    if "heap s1 ! b \<noteq> [] \<and> py_get metric ''metric_name'' JNull = Inr (JStr ''FreeStorageSpace'')"
    using eq res that by (auto simp del: py_get.simps)
  show "case get_tags_from_arn w' ?arn (rds_client cx) s' of
          (b2, s2) \<Rightarrow>
            b2 = b \<and> heap s2 ! b2 = heap s1 ! b
            \<and> misses (arn_cache s2) = misses (arn_cache s')
            \<and> hits (arn_cache s2) = hits (arn_cache s') + 1
            \<and> (map_of (heap s1 ! b) ''db_size'' = None
                \<longrightarrow> map_of (heap s2 ! b2) ''db_size'' = None)"
    unfolding hit by (simp add: hb)
qed

theorem db_size_merge_on_copy_witness:
  "cached_in_store init_proc
   \<and> get_tags_from_arn (sample_aws org_tags) sample_arn 2 init_proc
       = (0, init_proc\<lparr>heap := [[(''Organization GUID'', JStr ''x''), (''Owner'', JStr ''team'')]],
                      calls := [ListTagsForResource 2 sample_arn],
                      arn_cache := lru_miss (sample_arn, 2) 0 (arn_cache init_proc)\<rparr>)
   \<and> fst (get_resource_tags_from_metric (sample_aws org_tags) rds_metric dev_ctx init_proc) \<noteq> 0
   \<and> (\<exists>sz. heap (snd (get_resource_tags_from_metric (sample_aws org_tags) rds_metric dev_ctx
                          init_proc))
              ! fst (get_resource_tags_from_metric (sample_aws org_tags) rds_metric dev_ctx
                          init_proc)
            = [(''Organization GUID'', JStr ''x''), (''Owner'', JStr ''team''), (''db_size'', sz)])
   \<and> (case get_tags_from_arn failing_aws sample_arn 2
              (snd (get_resource_tags_from_metric (sample_aws org_tags) rds_metric dev_ctx
                      init_proc)) of
        (b2, s2) \<Rightarrow>
          b2 = 0 \<and> heap s2 ! b2 = [(''Organization GUID'', JStr ''x''), (''Owner'', JStr ''team'')]
          \<and> map_of (heap s2 ! b2) ''db_size'' = None)
   \<and> heap (fold (\<lambda>(w, metric, cx) s. snd (get_resource_tags_from_metric w metric cx s))
              [(sample_aws org_tags, rds_metric, dev_ctx), (failing_aws, s3_metric, dev_ctx)]
              (snd (get_resource_tags_from_metric (sample_aws org_tags) rds_metric dev_ctx
                      init_proc))) ! 0
       = [(''Organization GUID'', JStr ''x''), (''Owner'', JStr ''team'')]"
proof -
  let ?G = "get_resource_tags_from_metric (sample_aws org_tags) rds_metric dev_ctx init_proc"
  let ?s1 = "init_proc\<lparr>heap := [[(''Organization GUID'', JStr ''x''), (''Owner'', JStr ''team'')]],
                      calls := [ListTagsForResource 2 sample_arn],
                      arn_cache := lru_miss (sample_arn, 2) 0 (arn_cache init_proc)\<rparr>"
  let ?arn = "''arn:aws-us-gov:rds:'' @ fmt (region dev_ctx) @ '':'' @ fmt (account_id dev_ctx)
     @ '':db:'' @ ''cg-aws-broker-dev-db1''"
  let ?ops = "[(sample_aws org_tags, rds_metric, dev_ctx), (failing_aws, s3_metric, dev_ctx)]"
  have ok0: "cached_in_store init_proc"
    by (simp add: cached_in_store_def init_proc_simps)
  have b': "get_tags_from_arn (sample_aws org_tags) ?arn (rds_client dev_ctx) init_proc = (0, ?s1)"
    by (simp only: dev_ctx_arn rds_metric_fields(6) sample_base)
  have g: "?G = (fst ?G, snd ?G)"
    by simp
  have h1: "heap ?s1 ! 0 = [(''Organization GUID'', JStr ''x''), (''Owner'', JStr ''team'')]"
    by simp
  note t1 = db_size_merge_on_copy [OF ok0, where ops = "[(sample_aws org_tags, rds_metric, dev_ctx)]"
      and metric = rds_metric and cx = dev_ctx and w = "sample_aws org_tags" and b = 0
      and ?s1.0 = ?s1 and r = "fst ?G" and s' = "snd ?G" and w' = failing_aws
      and db_name = "''cg-aws-broker-dev-db1''"
      and dimensions = "JObj [(''DBInstanceIdentifier'', JStr ''cg-aws-broker-dev-db1'')]"]
  from t1 have inv1: "cached_in_store (snd ?G)"
    by simp
  from t1 [THEN conjunct2, THEN conjunct2, THEN conjunct2, THEN conjunct2, rule_format]
    rds_metric_fields(1-5) b' g
  have after: "fst ?G \<noteq> 0 \<and> heap (snd ?G) ! 0 = heap ?s1 ! 0
      \<and> (heap ?s1 ! 0 \<noteq> []
           \<and> py_get rds_metric ''metric_name'' JNull = Inr (JStr ''FreeStorageSpace'')
          \<longrightarrow> (\<exists>sz. heap (snd ?G) ! fst ?G = AList.update ''db_size'' sz (heap ?s1 ! 0)))
      \<and> (case get_tags_from_arn failing_aws ?arn (rds_client dev_ctx) (snd ?G) of
            (b2, s2) \<Rightarrow>
              b2 = 0 \<and> heap s2 ! b2 = heap ?s1 ! 0
              \<and> misses (arn_cache s2) = misses (arn_cache (snd ?G))
              \<and> hits (arn_cache s2) = hits (arn_cache (snd ?G)) + 1
              \<and> (map_of (heap ?s1 ! 0) ''db_size'' = None
                  \<longrightarrow> map_of (heap s2 ! b2) ''db_size'' = None))"
    by simp
  from after have a1: "fst ?G \<noteq> 0"
    by blast
  from after rds_metric_fields(4)
  have a2: "\<exists>sz. heap (snd ?G) ! fst ?G
      = [(''Organization GUID'', JStr ''x''), (''Owner'', JStr ''team''), (''db_size'', sz)]"
    unfolding h1 by simp
  from after
  have a3: "case get_tags_from_arn failing_aws sample_arn 2 (snd ?G) of
        (b2, s2) \<Rightarrow>
          b2 = 0 \<and> heap s2 ! b2 = [(''Organization GUID'', JStr ''x''), (''Owner'', JStr ''team'')]
          \<and> map_of (heap s2 ! b2) ''db_size'' = None"
    unfolding h1 dev_ctx_arn rds_metric_fields(6) by (auto split: prod.splits)
  from after have h0: "heap (snd ?G) ! 0 = [(''Organization GUID'', JStr ''x''), (''Owner'', JStr ''team'')]"
    unfolding h1 by blast
  have len: "0 < length (heap (snd ?G))"
    using get_resource_tags_from_metric_inv [OF ok0, of "sample_aws org_tags" rds_metric dev_ctx]
      a1 cached_in_store_nth [OF inv1]
    by (cases "heap (snd ?G)") (auto simp: get_resource_tags_from_metric_rds [OF rds_metric_fields(1,2,3,5) b'] split: if_splits)
  from db_size_merge_on_copy [OF inv1, where a = 0 and ops = ?ops, THEN conjunct1, rule_format, OF len]
  have a4: "heap (fold (\<lambda>(w, metric, cx) s. snd (get_resource_tags_from_metric w metric cx s))
              ?ops (snd ?G)) ! 0
       = [(''Organization GUID'', JStr ''x''), (''Owner'', JStr ''team'')]"
    by (simp only: h0)
  from ok0 sample_base a1 a2 a3 a4 show ?thesis
    by (intro conjI)
qed

section \<open>A failing capacity lookup\<close>

text \<open>
  Claim C10. A batch of one record \<open>rcd\<close> whose payload is one line, an \<open>AWS/RDS\<close> metric
  named \<open>FreeStorageSpace\<close> for an instance whose name starts with the RDS prefix and
  whose base tag mapping (\<open>heap s1 ! a\<close>) is not empty. When the description of the
  instance is not cached and the request for it fails, \<^verbatim>\<open>get_rds_description\<close>
  returns \<^verbatim>\<open>None\<close>, and the handler returns the record with disposition Ok, its
  data being the encoded line of a metric whose \<open>Tags\<close> are the base tags with
  \<open>db_size\<close> set to \<^verbatim>\<open>None\<close> (JSON \<open>null\<close>): the value under \<open>db_size\<close> of an Ok
  record need not be a number. With more records after this one, whenever the handler
  returns, that Ok record is the first of its output.
\<close>

theorem failed_description_gives_null_db_size:
  assumes pre: "make_prefixes (ENVIRONMENT env) = Inr (rds_pre, s3_pre, domain_pre)"
    and dec: "b64decode lib (data rcd) = Inr pre_json_value"
    and lines: "splitlines lib pre_json_value = [line]"
    and loads: "json_loads lib line = Inr (JObj kvs)"
    and ns: "map_of kvs ''namespace'' = Some (JStr ''AWS/RDS'')"
    and mn: "map_of kvs ''metric_name'' = Some (JStr ''FreeStorageSpace'')"
    and dims: "map_of kvs ''dimensions'' = Some (JObj dimensions)"
    and db: "map_of dimensions ''DBInstanceIdentifier'' = Some (JStr db_name)"
    and sw: "startswith db_name rds_pre"
    and base: "get_tags_from_arn w (''arn:aws-us-gov:rds:''
            @ fmt (py_or (session_region env) (AWS_REGION env)) @ '':''
            @ fmt (ACCOUNT_ID env) @ '':db:'' @ db_name) rds s = (a, s1)"
    and nonempty: "heap s1 ! a \<noteq> []"
    and miss: "map_of (entries (rds_cache s)) (rds, db_name) = None"
    and fail: "describe_db_instances w rds db_name = Inl e"
  shows "fst (get_rds_description w rds db_name s) = JNull
     \<and> (\<exists>M. map_of M ''Tags'' = Some (JObj (AList.update ''db_size'' JNull (heap s1 ! a)))
            \<and> fst (lambda_handler w lib env s3 es rds [rcd] s)
              = Inr [\<lparr>recordId = recordId rcd,
                      data = b64encode lib (json_dumps lib (JObj M) @ nl),
                      result = Ok\<rparr>]
            \<and> (fst (lambda_handler w lib env s3 es rds (rcd # records) s) = Inr out
                \<longrightarrow> (\<exists>rest. out = \<lparr>recordId = recordId rcd,
                      data = b64encode lib (json_dumps lib (JObj M) @ nl),
                      result = Ok\<rparr> # rest)))
     \<and> map_of (AList.update ''db_size'' JNull (heap s1 ! a)) ''db_size'' = Some JNull"
proof (intro conjI)
  show "fst (get_rds_description w rds db_name s) = JNull"
    by (simp add: get_rds_description_fail [OF miss fail])
next
  show "map_of (AList.update ''db_size'' JNull (heap s1 ! a)) ''db_size'' = Some JNull"
    by (simp add: update_conv')
next
  define cx where "cx = \<lparr>region = py_or (session_region env) (AWS_REGION env),
      account_id = ACCOUNT_ID env, s3_client = s3, es_client = es, rds_client = rds,
      s3_prefix = s3_pre, domain_prefix = domain_pre, rds_prefix = rds_pre\<rparr>"
  define kvs' where "kvs' = AList.delete ''region'' (AList.delete ''account_id''
            (AList.delete ''metric_stream_name'' kvs))"
  define T where "T = AList.update ''db_size'' JNull (heap s1 ! a)"
  define r where "r = length (heap s1)"
  define s2 where "s2 = s1\<lparr>heap := heap s1 @ [heap s1 ! a]\<rparr>"
  define s' where "s' = (s2\<lparr>rds_cache := lru_miss (rds, db_name) JNull (rds_cache s2),
               calls := calls s2 @ [DescribeDBInstances rds db_name]\<rparr>)\<lparr>heap := heap s1 @ [T]\<rparr>"
  define m where "m = JObj (AList.update ''dimensions'' (JObj (AList.delete ''ClientId'' dimensions))
      (AList.update ''Tags'' (JRef r) kvs'))"
  have f1: "py_get (JObj kvs') ''namespace'' JNull = Inr (JStr ''AWS/RDS'')"
    and f2: "py_get (JObj kvs') ''dimensions'' (JObj []) = Inr (JObj dimensions)"
    and f3: "py_get (JObj dimensions) ''DBInstanceIdentifier'' JNull = Inr (JStr db_name)"
    and f4: "py_get (JObj kvs') ''metric_name'' JNull = Inr (JStr ''FreeStorageSpace'')"
    and f5: "startswith db_name (rds_prefix cx)"
    by (simp_all add: kvs'_def ns mn dims db sw cx_def)
  have base': "get_tags_from_arn w (''arn:aws-us-gov:rds:'' @ fmt (region cx) @ '':''
            @ fmt (account_id cx) @ '':db:'' @ db_name) (rds_client cx) s = (a, s1)"
    using base by (simp add: cx_def)
  have rc: "rds_cache s1 = rds_cache s"
    using get_tags_from_arn_frame(1) [of w _ rds s] base by (metis snd_conv)
  have miss2: "map_of (entries (rds_cache s2)) (rds, db_name) = None"
    by (simp add: s2_def rc miss)
  have g: "get_resource_tags_from_metric w (JObj kvs') cx s = (r, s')"
    using get_resource_tags_from_metric_rds [OF f1 f2 f3 f5 base'] nonempty f4
    by (simp add: get_rds_description_fail [OF miss2 fail, unfolded s2_def] cx_def r_def s'_def
        s2_def T_def)
  have hr: "heap s' ! r = T"
    by (simp add: s'_def r_def)
  have Tne: "T \<noteq> []"
    by (simp add: T_def)
  have pm: "process_metric w (JObj kvs') cx s
      = (Some (JObj (AList.update ''Tags'' (JRef r) kvs')), s')"
    by (simp add: process_metric_def f1 EXPECTED_NAMESPACES_def g hr Tne del: py_get.simps)
  have pc: "pop_client_id (JObj (AList.update ''Tags'' (JRef r) kvs')) = Inr m"
    by (simp add: pop_client_id_def update_conv' kvs'_def dims m_def)
  have ml: "metric_lines w lib cx [line] [] s = (Inr [m], s')"
    by (simp add: loads pop_keys_obj [of kvs, folded kvs'_def] pm pc)
  have mr: "metric_records w lib cx (rcd # rs) [] s
      = metric_records w lib cx rs
          [\<lparr>recordId = recordId rcd,
            data = b64encode lib (json_dumps lib (resolve (heap s') m) @ nl),
            result = Ok\<rparr>] s'" for rs
    by (simp add: dec lines ml Let_def del: metric_lines.simps)
  have lh: "lambda_handler w lib env s3 es rds (rcd # rs) s
      = metric_records w lib cx rs
          [\<lparr>recordId = recordId rcd,
            data = b64encode lib (json_dumps lib (resolve (heap s') m) @ nl),
            result = Ok\<rparr>] s'" for rs
    by (simp add: lambda_handler_def pre Let_def mr [unfolded cx_def] cx_def
        del: metric_records.simps)
  define M where "M = map (\<lambda>kv. (fst kv, deref (heap s') (snd kv)))
      (AList.update ''dimensions'' (JObj (AList.delete ''ClientId'' dimensions))
        (AList.update ''Tags'' (JRef r) kvs'))"
  have res: "resolve (heap s') m = JObj M"
    by (simp add: resolve_def m_def M_def)
  have tg: "map_of M ''Tags'' = Some (JObj (AList.update ''db_size'' JNull (heap s1 ! a)))"
    by (simp add: M_def map_of_deref update_conv', simp add: deref_def hr T_def)
  have one: "fst (lambda_handler w lib env s3 es rds [rcd] s)
      = Inr [\<lparr>recordId = recordId rcd,
               data = b64encode lib (json_dumps lib (JObj M) @ nl),
               result = Ok\<rparr>]"
    by (simp add: lh res)
  have more: "\<exists>rest. out = \<lparr>recordId = recordId rcd,
               data = b64encode lib (json_dumps lib (JObj M) @ nl),
               result = Ok\<rparr> # rest"
    if "fst (lambda_handler w lib env s3 es rds (rcd # records) s) = Inr out"
    using metric_records_prefix [of w lib cx records
        "[\<lparr>recordId = recordId rcd, data = b64encode lib (json_dumps lib (JObj M) @ nl),
           result = Ok\<rparr>]" s' out] that
    by (simp add: lh res)
  from tg one more
  show "\<exists>M. map_of M ''Tags'' = Some (JObj (AList.update ''db_size'' JNull (heap s1 ! a)))
            \<and> fst (lambda_handler w lib env s3 es rds [rcd] s)
              = Inr [\<lparr>recordId = recordId rcd,
                      data = b64encode lib (json_dumps lib (JObj M) @ nl),
                      result = Ok\<rparr>]
            \<and> (fst (lambda_handler w lib env s3 es rds (rcd # records) s) = Inr out
                \<longrightarrow> (\<exists>rest. out = \<lparr>recordId = recordId rcd,
                      data = b64encode lib (json_dumps lib (JObj M) @ nl),
                      result = Ok\<rparr> # rest))"
    by blast
qed

theorem failed_description_gives_null_db_size_witness:
  "make_prefixes (ENVIRONMENT dev_env)
     = Inr (''cg-aws-broker-dev'', ''development-cg-'', ''cg-broker-dev-'')
   \<and> json_loads sample_codec ''metric'' = Inr rds_metric
   \<and> describe_db_instances (sample_aws org_tags) 2 ''cg-aws-broker-dev-db1''
       = Inl (ClientError ''DBInstanceNotFound'')
   \<and> fst (get_rds_description (sample_aws org_tags) 2 ''cg-aws-broker-dev-db1'' init_proc) = JNull
   \<and> (\<exists>M. fst (lambda_handler (sample_aws org_tags) sample_codec dev_env 0 1 2
                  [\<lparr>recordId = ''r1'', data = ''metric''\<rparr>] init_proc)
            = Inr [\<lparr>recordId = ''r1'',
                    data = b64encode sample_codec (json_dumps sample_codec (JObj M) @ nl),
                    result = Ok\<rparr>]
          \<and> map_of M ''Tags''
            = Some (JObj [(''Organization GUID'', JStr ''x''), (''Owner'', JStr ''team''),
                          (''db_size'', JNull)]))"
proof -
  let ?s1 = "init_proc\<lparr>heap := [[(''Organization GUID'', JStr ''x''), (''Owner'', JStr ''team'')]],
                      calls := [ListTagsForResource 2 sample_arn],
                      arn_cache := lru_miss (sample_arn, 2) 0 (arn_cache init_proc)\<rparr>"
  let ?arn = "''arn:aws-us-gov:rds:'' @ fmt (py_or (session_region dev_env) (AWS_REGION dev_env))
     @ '':'' @ fmt (ACCOUNT_ID dev_env) @ '':db:'' @ ''cg-aws-broker-dev-db1''"
  have pre: "make_prefixes (ENVIRONMENT dev_env)
     = Inr (''cg-aws-broker-dev'', ''development-cg-'', ''cg-broker-dev-'')"
    by (simp add: make_prefixes_def dev_env_def fmt_def)
  have dec: "b64decode sample_codec (data \<lparr>recordId = ''r1'', data = ''metric''\<rparr>) = Inr ''metric''"
    and lines: "splitlines sample_codec ''metric'' = [''metric'']"
    and loads: "json_loads sample_codec ''metric''
      = Inr (JObj [(''metric_stream_name'', JStr ''stream''),
          (''namespace'', JStr ''AWS/RDS''),
          (''metric_name'', JStr ''FreeStorageSpace''),
          (''dimensions'', JObj [(''DBInstanceIdentifier'', JStr ''cg-aws-broker-dev-db1'')])])"
    and loads': "json_loads sample_codec ''metric'' = Inr rds_metric"
    by (simp_all add: sample_codec_def rds_metric_def)
  have base: "get_tags_from_arn (sample_aws org_tags) ?arn 2 init_proc = (0, ?s1)"
    by (simp only: dev_env_arn sample_base)
  have ne: "heap ?s1 ! 0 \<noteq> []"
    by simp
  have miss: "map_of (entries (rds_cache init_proc)) (2, ''cg-aws-broker-dev-db1'') = None"
    by (simp add: init_proc_simps)
  have fail: "describe_db_instances (sample_aws org_tags) 2 ''cg-aws-broker-dev-db1''
       = Inl (ClientError ''DBInstanceNotFound'')"
    by (simp add: sample_aws_def)
  have sw: "startswith ''cg-aws-broker-dev-db1'' ''cg-aws-broker-dev''"
    by (simp add: startswith_def)
  have k: "map_of [(''metric_stream_name'', JStr ''stream''),
          (''namespace'', JStr ''AWS/RDS''),
          (''metric_name'', JStr ''FreeStorageSpace''),
          (''dimensions'', JObj [(''DBInstanceIdentifier'', JStr ''cg-aws-broker-dev-db1'')])]
        ''namespace'' = Some (JStr ''AWS/RDS'')"
    "map_of [(''metric_stream_name'', JStr ''stream''),
          (''namespace'', JStr ''AWS/RDS''),
          (''metric_name'', JStr ''FreeStorageSpace''),
          (''dimensions'', JObj [(''DBInstanceIdentifier'', JStr ''cg-aws-broker-dev-db1'')])]
        ''metric_name'' = Some (JStr ''FreeStorageSpace'')"
    "map_of [(''metric_stream_name'', JStr ''stream''),
          (''namespace'', JStr ''AWS/RDS''),
          (''metric_name'', JStr ''FreeStorageSpace''),
          (''dimensions'', JObj [(''DBInstanceIdentifier'', JStr ''cg-aws-broker-dev-db1'')])]
        ''dimensions'' = Some (JObj [(''DBInstanceIdentifier'', JStr ''cg-aws-broker-dev-db1'')])"
    "map_of [(''DBInstanceIdentifier'', JStr ''cg-aws-broker-dev-db1'')] ''DBInstanceIdentifier''
       = Some (JStr ''cg-aws-broker-dev-db1'')"
    by simp_all
  note t = failed_description_gives_null_db_size [OF pre dec lines loads k sw base ne miss fail,
      where ?s3.0 = 0 and es = 1 and records = "[]" and out = "[]"]
  from t have t': "fst (get_rds_description (sample_aws org_tags) 2 ''cg-aws-broker-dev-db1''
        init_proc) = JNull
     \<and> (\<exists>M. fst (lambda_handler (sample_aws org_tags) sample_codec dev_env 0 1 2
                  [\<lparr>recordId = ''r1'', data = ''metric''\<rparr>] init_proc)
            = Inr [\<lparr>recordId = ''r1'',
                    data = b64encode sample_codec (json_dumps sample_codec (JObj M) @ nl),
                    result = Ok\<rparr>]
          \<and> map_of M ''Tags''
            = Some (JObj [(''Organization GUID'', JStr ''x''), (''Owner'', JStr ''team''),
                          (''db_size'', JNull)]))"
    by auto
  from pre loads' fail t' show ?thesis
    by (intro conjI) simp_all
qed

section \<open>Two lookups of one locator\<close>

text \<open>
  Claim C8. Two calls of the cached \<^verbatim>\<open>get_tags_from_arn\<close> in a row, with the same
  locator and the same client: the second call is a cache hit (one more hit, no more
  miss), it makes no service call, and it returns what the first returned (in the
  metric module the same object, in a store that the second call leaves as it was).
  Over both calls each tag operation is called once at most, and one operation at
  most unless the locator contains both \<open>:domain/\<close> and \<open>:db:\<close> (the metric module
  then tries both operations in the one first call). This holds whatever the services
  would answer at the second call (\<open>w'\<close>), so in particular when their answer is
  unchanged.
\<close>

theorem cached_lookup_idempotent:
  "(case get_tags_from_arn w arn client s of
      (a1, s1) \<Rightarrow>
        (case get_tags_from_arn w' arn client s1 of
           (a2, s2) \<Rightarrow>
             a2 = a1 \<and> heap s2 = heap s1 \<and> calls s2 = calls s1
             \<and> hits (arn_cache s2) = hits (arn_cache s1) + 1
             \<and> misses (arn_cache s2) = misses (arn_cache s1)
             \<and> (\<exists>cs. calls s2 = calls s @ cs \<and> distinct cs
                      \<and> set cs \<subseteq> {ListTags client arn, ListTagsForResource client arn}
                      \<and> (\<not> (contains arn '':domain/'' \<and> contains arn '':db:'')
                          \<longrightarrow> length cs \<le> 1))))
   \<and> (case cw_get_tags_from_arn w arn client t of
      (tags1, t1) \<Rightarrow>
        (case cw_get_tags_from_arn w' arn client t1 of
           (tags2, t2) \<Rightarrow>
             tags2 = tags1 \<and> cw_calls t2 = cw_calls t1
             \<and> hits (cw_arn_cache t2) = hits (cw_arn_cache t1) + 1
             \<and> misses (cw_arn_cache t2) = misses (cw_arn_cache t1)
             \<and> (\<exists>cs. cw_calls t2 = cw_calls t @ cs \<and> length cs \<le> 1)))"
  (is "?metric \<and> ?log")
proof (rule conjI)
  show ?metric
  proof (cases "map_of (entries (arn_cache s)) (arn, client)")
    case None
    show ?thesis
      using get_tags_from_arn_body_calls [of w arn client]
      by (simp add: get_tags_from_arn_miss [OF None] get_tags_from_arn_hit)
  next
    case (Some a)
    show ?thesis
      by (simp add: get_tags_from_arn_hit [OF Some] get_tags_from_arn_hit)
  qed
next
  show ?log
  proof (cases "map_of (entries (cw_arn_cache t)) (arn, client)")
    case None
    show ?thesis
      using cw_get_tags_from_arn_body_calls [of w arn client]
      by (simp add: cw_get_tags_from_arn_miss [OF None] cw_get_tags_from_arn_hit)
  next
    case (Some a)
    show ?thesis
      by (simp add: cw_get_tags_from_arn_hit [OF Some] cw_get_tags_from_arn_hit)
  qed
qed

theorem cached_lookup_idempotent_witness:
  "(case get_tags_from_arn (sample_aws org_tags) sample_arn 2 init_proc of
      (a1, s1) \<Rightarrow>
        (case get_tags_from_arn (sample_aws org_tags) sample_arn 2 s1 of
           (a2, s2) \<Rightarrow>
             a1 = 0 \<and> a2 = 0 \<and> heap s2 = heap s1
             \<and> heap s2 ! a2 = [(''Organization GUID'', JStr ''x''), (''Owner'', JStr ''team'')]
             \<and> calls s2 = [ListTagsForResource 2 sample_arn]
             \<and> hits (arn_cache s2) = 1 \<and> misses (arn_cache s2) = 1))
   \<and> (case cw_get_tags_from_arn (sample_aws org_tags) sample_arn 2 init_cw_proc of
      (tags1, t1) \<Rightarrow>
        (case cw_get_tags_from_arn (sample_aws org_tags) sample_arn 2 t1 of
           (tags2, t2) \<Rightarrow>
             tags2 = tags1
             \<and> tags2 = [(''Organization GUID'', JStr ''x''), (''Owner'', JStr ''team'')]
             \<and> cw_calls t2 = [ListTagsForResource 2 sample_arn]
             \<and> hits (cw_arn_cache t2) = 1 \<and> misses (cw_arn_cache t2) = 1))"
proof -
  have m1: "map_of (entries (arn_cache init_proc)) (sample_arn, 2) = None"
    by (simp add: init_proc_simps)
  have m2: "map_of (entries (cw_arn_cache init_cw_proc)) (sample_arn, 2) = None"
    by (simp add: init_cw_proc_simps)
  have b1: "get_tags_from_arn_body (sample_aws org_tags) sample_arn 2
              = ([(''Organization GUID'', JStr ''x''), (''Owner'', JStr ''team'')],
                 [ListTagsForResource 2 sample_arn])"
    using sample_arn_db sample_arn_not_domain
    by (simp add: get_tags_from_arn_body_def sample_aws_def org_tags_def tag_dict_def)
  have b2: "cw_get_tags_from_arn_body (sample_aws org_tags) sample_arn 2
              = ([(''Organization GUID'', JStr ''x''), (''Owner'', JStr ''team'')],
                 [ListTagsForResource 2 sample_arn])"
    using sample_arn_db
    by (simp add: cw_get_tags_from_arn_body_def sample_aws_def org_tags_def tag_dict_def)
  show ?thesis
    using cached_lookup_idempotent [where w = "sample_aws org_tags" and arn = sample_arn
        and client = 2 and s = init_proc and w' = "sample_aws org_tags" and t = init_cw_proc]
    by (simp add: get_tags_from_arn_miss [OF m1] cw_get_tags_from_arn_miss [OF m2] b1 b2
        get_tags_from_arn_hit cw_get_tags_from_arn_hit init_proc_simps init_cw_proc_simps)
qed

section \<open>The drivers' output records\<close>

lemma metric_records_ids:
  "fst (metric_records w lib cx records acc s) = Inr out \<Longrightarrow>
   map recordId out = map recordId acc @ map recordId records"
proof (induction records arbitrary: acc s)
  case Nil
  then show ?case by simp
next
  case (Cons r rs)
  then show ?case
    by (auto simp: Let_def split: sum.splits prod.splits if_splits)
qed

lemma cw_records_ids:
  "map recordId (fst (fst (cw_records w lib cx records acc s3o t)))
     = map recordId acc @ map recordId records"
proof (induction records arbitrary: acc s3o t)
  case Nil
  then show ?case by simp
next
  case (Cons r rs)
  then show ?case
    by (auto simp: Let_def split: sum.splits prod.splits if_splits)
qed


text \<open>
  Claim C1, as the code has it. Whenever the metric handler returns a result, and
  whenever the log handler returns a result after its configuration block succeeded,
  the output records carry the record identifiers of the input records, in the same
  order, one for one. When the configuration block of the log handler fails, the log
  handler returns an empty list of records, whatever the batch, and leaves the state
  as it was (see the counterexample below).
\<close>

theorem handler_outputs_one_to_one:
  "(fst (lambda_handler w lib env s3 es rds records s) = Inr out
      \<longrightarrow> map recordId out = map recordId records \<and> length out = length records)
   \<and> (cw_config env = Inr cfg \<and> fst (cw_lambda_handler w lib env s3' rds' records t) = Inr out'
      \<longrightarrow> map recordId out' = map recordId records \<and> length out' = length records)
   \<and> (cw_config env = Inl e
      \<longrightarrow> cw_lambda_handler w lib env s3' rds' records t = (Inr [], t))"
proof (intro conjI impI)
  assume h: "fst (lambda_handler w lib env s3 es rds records s) = Inr out"
  then obtain cx where "fst (metric_records w lib cx records [] s) = Inr out"
    by (auto simp: lambda_handler_def Let_def split: sum.splits prod.splits)
  from metric_records_ids [OF this] show m: "map recordId out = map recordId records"
    by simp
  from arg_cong [OF m, of length] show "length out = length records"
    by simp
next
  assume h: "cw_config env = Inr cfg \<and> fst (cw_lambda_handler w lib env s3' rds' records t) = Inr out'"
  have ids: "map recordId o' = map recordId records"
    if "cw_records w lib cx records [] [] t = ((o', x), y)" for cx o' x y
    using cw_records_ids [of w lib cx records "[]" "[]" t] that by simp
  from h show m: "map recordId out' = map recordId records"
    by (auto simp: cw_lambda_handler_def Let_def split: sum.splits prod.splits if_splits
        dest: ids)
  from arg_cong [OF m, of length] show "length out' = length records"
    by simp
next
  assume "cw_config env = Inl e"
  then show "cw_lambda_handler w lib env s3' rds' records t = (Inr [], t)"
    by (simp add: cw_lambda_handler_def)
qed


theorem handler_outputs_one_to_one_witness:
  "fst (lambda_handler (sample_aws org_tags) sample_codec dev_env 0 1 2
          [\<lparr>recordId = ''r1'', data = ''metric''\<rparr>, \<lparr>recordId = ''r2'', data = ''log''\<rparr>]
          init_proc)
     = Inr [\<lparr>recordId = ''r1'', data = ''{}'' @ nl, result = Ok\<rparr>,
            \<lparr>recordId = ''r2'', data = ''log'', result = Dropped\<rparr>]
   \<and> cw_config dev_env
       = Inr (Some ''us-gov-west-1'', ''bucket'', Some ''123456'', ''cg-aws-broker-dev'')
   \<and> fst (cw_lambda_handler (sample_aws org_tags) sample_codec dev_env 0 2
          [\<lparr>recordId = ''r1'', data = ''log''\<rparr>, \<lparr>recordId = ''r2'', data = ''bad''\<rparr>]
          init_cw_proc)
     = Inr [\<lparr>recordId = ''r1'', data = [], result = Ok\<rparr>,
            \<lparr>recordId = ''r2'', data = ''bad'', result = Dropped\<rparr>]
   \<and> map recordId [\<lparr>recordId = ''r1'', data = ''{}'' @ nl, result = Ok\<rparr>,
                     \<lparr>recordId = ''r2'', data = ''log'', result = Dropped\<rparr>]
       = map recordId [\<lparr>recordId = ''r1'', data = ''metric''\<rparr>, \<lparr>recordId = ''r2'', data = ''log''\<rparr>]
   \<and> map recordId [\<lparr>recordId = ''r1'', data = [], result = Ok\<rparr>,
                     \<lparr>recordId = ''r2'', data = ''bad'', result = Dropped\<rparr>]
       = map recordId [\<lparr>recordId = ''r1'', data = ''log''\<rparr>, \<lparr>recordId = ''r2'', data = ''bad''\<rparr>]
   \<and> cw_config (dev_env\<lparr>ACCOUNT_ID := None\<rparr>)
       = Inl (ValueError ''ACCOUNT_ID environment variable is required'')
   \<and> cw_lambda_handler failing_aws sample_codec (dev_env\<lparr>ACCOUNT_ID := None\<rparr>) 0 2
         [\<lparr>recordId = ''r1'', data = ''log''\<rparr>, \<lparr>recordId = ''r2'', data = ''bad''\<rparr>]
         init_cw_proc = (Inr [], init_cw_proc)"
proof -
  have e1: "fst (lambda_handler (sample_aws org_tags) sample_codec dev_env 0 1 2
          [\<lparr>recordId = ''r1'', data = ''metric''\<rparr>, \<lparr>recordId = ''r2'', data = ''log''\<rparr>]
          init_proc)
     = Inr [\<lparr>recordId = ''r1'', data = ''{}'' @ nl, result = Ok\<rparr>,
            \<lparr>recordId = ''r2'', data = ''log'', result = Dropped\<rparr>]"
    by code_simp
  have e2: "cw_config dev_env
       = Inr (Some ''us-gov-west-1'', ''bucket'', Some ''123456'', ''cg-aws-broker-dev'')"
    by code_simp
  have e3: "fst (cw_lambda_handler (sample_aws org_tags) sample_codec dev_env 0 2
          [\<lparr>recordId = ''r1'', data = ''log''\<rparr>, \<lparr>recordId = ''r2'', data = ''bad''\<rparr>]
          init_cw_proc)
     = Inr [\<lparr>recordId = ''r1'', data = [], result = Ok\<rparr>,
            \<lparr>recordId = ''r2'', data = ''bad'', result = Dropped\<rparr>]"
    by code_simp
  note t = handler_outputs_one_to_one [where w = "sample_aws org_tags" and lib = sample_codec
      and env = dev_env and t = init_cw_proc and s = init_proc]
  from t [THEN conjunct1, rule_format, OF e1]
  have m1: "map recordId [\<lparr>recordId = ''r1'', data = ''{}'' @ nl, result = Ok\<rparr>,
                     \<lparr>recordId = ''r2'', data = ''log'', result = Dropped\<rparr>]
       = map recordId [\<lparr>recordId = ''r1'', data = ''metric''\<rparr>, \<lparr>recordId = ''r2'', data = ''log''\<rparr>]"
    by simp
  from t [THEN conjunct2, THEN conjunct1, rule_format, OF conjI [OF e2 e3]]
  have m2: "map recordId [\<lparr>recordId = ''r1'', data = [], result = Ok\<rparr>,
                     \<lparr>recordId = ''r2'', data = ''bad'', result = Dropped\<rparr>]
       = map recordId [\<lparr>recordId = ''r1'', data = ''log''\<rparr>, \<lparr>recordId = ''r2'', data = ''bad''\<rparr>]"
    by simp
  have e4: "cw_config (dev_env\<lparr>ACCOUNT_ID := None\<rparr>)
       = Inl (ValueError ''ACCOUNT_ID environment variable is required'')"
    by code_simp
  from handler_outputs_one_to_one [THEN conjunct2, THEN conjunct2, rule_format, OF e4]
  have m3: "cw_lambda_handler failing_aws sample_codec (dev_env\<lparr>ACCOUNT_ID := None\<rparr>) 0 2
         [\<lparr>recordId = ''r1'', data = ''log''\<rparr>, \<lparr>recordId = ''r2'', data = ''bad''\<rparr>]
         init_cw_proc = (Inr [], init_cw_proc)" .
  from e1 e2 e3 m1 m2 e4 m3 show ?thesis
    by (intro conjI)
qed

text \<open>
  Claim C1 as stated fails for the log handler: with S3_BUCKET_NAME unset and a batch
  of one record, the handler returns no record.
\<close>

theorem cw_config_error_counterexample:
  "fst (cw_lambda_handler (sample_aws org_tags) sample_codec (dev_env\<lparr>S3_BUCKET_NAME := None\<rparr>)
          0 2 [\<lparr>recordId = ''r1'', data = ''log''\<rparr>] init_cw_proc) = Inr []"
  by code_simp

section \<open>Lines that are not JSON\<close>

lemma cw_lines_skip:
  "cw_lines w lib cx lines acc t
     = cw_lines w lib cx (filter (\<lambda>l. json_loads lib l \<noteq> Inl JSONDecodeError) lines) acc t"
proof (induction lines arbitrary: acc t)
  case Nil
  then show ?case by simp
next
  case (Cons l ls)
  show ?case
  proof (cases "json_loads lib l = Inl JSONDecodeError")
    case True
    then show ?thesis using Cons.IH [of acc t] by simp
  next
    case False
    then show ?thesis using Cons.IH
      by (auto split: sum.splits prod.splits option.splits)
  qed
qed


text \<open>
  Claim C5, as the code has it. Only the log handler catches the decode error of a
  line; the metric handler has no handler around \<^verbatim>\<open>json.loads\<close> but the one that
  logs and raises again (see the counterexample below). In the log handler:
  \<^item> the lines that \<^verbatim>\<open>json.loads\<close> rejects with a JSONDecodeError are skipped: the
    loop over the lines gives the entries, and leaves the state, that the other lines
    alone give;
  \<^item> a record whose other lines give no entry (so also a record all of whose lines
    are rejected) gets the disposition Dropped with its own data, and the loop goes on
    with the next record;
  \<^item> the batch is not aborted: once the configuration block succeeded, the handler
    raises only an exception of the write to the bucket.
\<close>

theorem cw_decode_error_per_line:
  "cw_lines w lib cx lines acc t
     = cw_lines w lib cx (filter (\<lambda>l. json_loads lib l \<noteq> Inl JSONDecodeError) lines) acc t
   \<and> (b64decode lib (data rcd) = Inr compressed
      \<and> gzip_decompress lib compressed = Inr pre
      \<and> cw_lines w lib cx
            (filter (\<lambda>l. json_loads lib l \<noteq> Inl JSONDecodeError) (splitlines lib pre)) [] t
          = (Inr [], t1)
      \<longrightarrow> cw_records w lib cx (rcd # records) out s3o t
          = cw_records w lib cx records
              (out @ [\<lparr>recordId = recordId rcd, data = data rcd, result = Dropped\<rparr>])
              s3o t1)
   \<and> (cw_config env = Inr cfg \<and> fst (cw_lambda_handler w lib env s3 rds batch t) = Inl e
      \<longrightarrow> (\<exists>bucket body. put_object w s3 bucket (s3_key lib) body = Inl e))"
proof (intro conjI impI)
  show "cw_lines w lib cx lines acc t
     = cw_lines w lib cx (filter (\<lambda>l. json_loads lib l \<noteq> Inl JSONDecodeError) lines) acc t"
    by (rule cw_lines_skip)
next
  assume h: "b64decode lib (data rcd) = Inr compressed
      \<and> gzip_decompress lib compressed = Inr pre
      \<and> cw_lines w lib cx
            (filter (\<lambda>l. json_loads lib l \<noteq> Inl JSONDecodeError) (splitlines lib pre)) [] t
          = (Inr [], t1)"
  then have "cw_lines w lib cx (splitlines lib pre) [] t = (Inr [], t1)"
    using cw_lines_skip [of w lib cx "splitlines lib pre" "[]" t] by simp
  with h have "cw_record_logs w lib cx rcd t = (Inr [], t1)"
    by (simp add: cw_record_logs_def)
  then show "cw_records w lib cx (rcd # records) out s3o t
          = cw_records w lib cx records
              (out @ [\<lparr>recordId = recordId rcd, data = data rcd, result = Dropped\<rparr>])
              s3o t1"
    by simp
next
  assume "cw_config env = Inr cfg \<and> fst (cw_lambda_handler w lib env s3 rds batch t) = Inl e"
  then show "\<exists>bucket body. put_object w s3 bucket (s3_key lib) body = Inl e"
    by (auto simp: cw_lambda_handler_def Let_def split: sum.splits prod.splits if_splits)
qed

theorem cw_decode_error_per_line_witness:
  "cw_lines (sample_aws org_tags) sample_codec
       \<lparr>cw_client = 2, cw_region = Some ''us-gov-west-1'', cw_account_id = Some ''123456'',
        cw_rds_prefix = ''cg-aws-broker-dev''\<rparr> [''bad'', ''log'', ''bad''] [] init_cw_proc
     = cw_lines (sample_aws org_tags) sample_codec
       \<lparr>cw_client = 2, cw_region = Some ''us-gov-west-1'', cw_account_id = Some ''123456'',
        cw_rds_prefix = ''cg-aws-broker-dev''\<rparr> [''log''] [] init_cw_proc
   \<and> splitlines sample_codec ''bad;bad'' = [''bad'', ''bad'']
   \<and> json_loads sample_codec ''bad'' = Inl JSONDecodeError
   \<and> cw_records (sample_aws org_tags) sample_codec
       \<lparr>cw_client = 2, cw_region = Some ''us-gov-west-1'', cw_account_id = Some ''123456'',
        cw_rds_prefix = ''cg-aws-broker-dev''\<rparr> [\<lparr>recordId = ''r2'', data = ''bad;bad''\<rparr>] [] []
       init_cw_proc
     = (([\<lparr>recordId = ''r2'', data = ''bad;bad'', result = Dropped\<rparr>], []), init_cw_proc)
   \<and> fst (cw_lambda_handler ((sample_aws org_tags)
            \<lparr>put_object := (\<lambda>c bucket key body. Inl (ClientError ''AccessDenied''))\<rparr>)
          sample_codec dev_env 0 2 [\<lparr>recordId = ''r1'', data = ''bad;log''\<rparr>] init_cw_proc)
     = Inl (ClientError ''AccessDenied'')
   \<and> (\<exists>bucket body.
        put_object ((sample_aws org_tags)
            \<lparr>put_object := (\<lambda>c bucket key body. Inl (ClientError ''AccessDenied''))\<rparr>)
          0 bucket (s3_key sample_codec) body = Inl (ClientError ''AccessDenied''))"
proof -
  let ?cx = "\<lparr>cw_client = 2, cw_region = Some ''us-gov-west-1'', cw_account_id = Some ''123456'',
        cw_rds_prefix = ''cg-aws-broker-dev''\<rparr>"
  let ?w = "(sample_aws org_tags)
            \<lparr>put_object := (\<lambda>c bucket key body. Inl (ClientError ''AccessDenied''))\<rparr>"
  have l: "splitlines sample_codec ''bad;bad'' = [''bad'', ''bad'']"
    by (simp add: sample_codec_def)
  have j: "json_loads sample_codec ''bad'' = Inl JSONDecodeError"
    by (simp add: sample_codec_def)
  have d: "b64decode sample_codec (data \<lparr>recordId = ''r2'', data = ''bad;bad''\<rparr>) = Inr ''bad;bad''"
    "gzip_decompress sample_codec ''bad;bad'' = Inr ''bad;bad''"
    by (simp_all add: sample_codec_def)
  have f: "filter (\<lambda>l. json_loads sample_codec l \<noteq> Inl JSONDecodeError) [''bad'', ''log'', ''bad'']
      = [''log'']"
    by (simp add: sample_codec_def)
  have e2: "cw_config dev_env
       = Inr (Some ''us-gov-west-1'', ''bucket'', Some ''123456'', ''cg-aws-broker-dev'')"
    by code_simp
  have e3: "fst (cw_lambda_handler ?w sample_codec dev_env 0 2
      [\<lparr>recordId = ''r1'', data = ''bad;log''\<rparr>] init_cw_proc) = Inl (ClientError ''AccessDenied'')"
    by code_simp
  note t = cw_decode_error_per_line [where lib = sample_codec and cx = ?cx and t = init_cw_proc
      and w = "sample_aws org_tags" and lines = "[''bad'', ''log'', ''bad'']" and acc = "[]"
      and rcd = "\<lparr>recordId = ''r2'', data = ''bad;bad''\<rparr>" and records = "[]"
      and out = "[]" and s3o = "[]" and compressed = "''bad;bad''" and pre = "''bad;bad''"
      and ?t1.0 = init_cw_proc]
  from t [THEN conjunct1]
  have a: "cw_lines (sample_aws org_tags) sample_codec ?cx [''bad'', ''log'', ''bad''] []
      init_cw_proc = cw_lines (sample_aws org_tags) sample_codec ?cx [''log''] [] init_cw_proc"
    by (simp only: f)
  have f2: "filter (\<lambda>l. json_loads sample_codec l \<noteq> Inl JSONDecodeError) [''bad'', ''bad''] = []"
    by (simp add: sample_codec_def)
  from t [THEN conjunct2, THEN conjunct1, rule_format] d l f2
  have b: "cw_records (sample_aws org_tags) sample_codec ?cx
      [\<lparr>recordId = ''r2'', data = ''bad;bad''\<rparr>] [] [] init_cw_proc
     = (([\<lparr>recordId = ''r2'', data = ''bad;bad'', result = Dropped\<rparr>], []), init_cw_proc)"
    by simp
  from cw_decode_error_per_line [THEN conjunct2, THEN conjunct2, rule_format,
      OF conjI [OF e2 e3]]
  have c: "\<exists>bucket body. put_object ?w 0 bucket (s3_key sample_codec) body
      = Inl (ClientError ''AccessDenied'')" .
  from a l j b e3 c show ?thesis
    by (intro conjI)
qed

text \<open>
  Claim C5 as stated fails for the metric handler: one line that is not JSON, in the
  first record of a batch of two, and the handler raises the decode error; no record
  gets a disposition.
\<close>

theorem metric_decode_error_counterexample:
  "fst (lambda_handler (sample_aws org_tags) sample_codec dev_env 0 1 2
          [\<lparr>recordId = ''r1'', data = ''bad''\<rparr>, \<lparr>recordId = ''r2'', data = ''metric''\<rparr>]
          init_proc) = Inl JSONDecodeError"
  by code_simp

section \<open>The provisioner's conflict and no-op\<close>




end
